theory Spec2Isabelle
  imports Main
begin

section \<open>The signing manager of the PDF generator (core/signer.py)\<close>

text \<open>
  The class \<^verbatim>\<open>PDFSigner\<close> keeps a private key, a certificate and a dictionary of
  signer details, and offers five operations: generating a self-signed certificate,
  loading and saving the pair, signing a document and verifying one. The model passes
  the instance fields and the outside world (files, clock, random source) explicitly.
  Every \<^verbatim>\<open>raise\<close> of the source and of the library calls it makes is a value
  \<open>Inl e\<close>; a call of a method is an outcome \<open>exn + value\<close>.
\<close>

subsection \<open>Python values\<close>

type_synonym bytes = "nat list"
type_synonym path = string

datatype exn =
    ValueError string
  | TypeError string
  | FileNotFoundError string
  | PermissionError string
  | PdfReadError string
  | AttributeError string
  | UnicodeEncodeError string

fun str_exn :: "exn \<Rightarrow> string" where
  "str_exn (ValueError m) = m"
| "str_exn (TypeError m) = m"
| "str_exn (FileNotFoundError m) = m"
| "str_exn (PermissionError m) = m"
| "str_exn (PdfReadError m) = m"
| "str_exn (AttributeError m) = m"
| "str_exn (UnicodeEncodeError m) = m"

text \<open>
  A text of the model is the byte sequence of the Python string in UTF-8, as the file
  system sees a path; a byte that is not part of a well-formed UTF-8 sequence stands
  for a lone surrogate, which is how Python keeps such a byte of a file name.
  Standard output encodes UTF-8 strictly: \<^verbatim>\<open>print\<close> raises UnicodeEncodeError on a
  text with a lone surrogate and writes every other text.
\<close>

fun utf8_ok :: "nat list \<Rightarrow> bool" where
  "utf8_ok [] = True"
| "utf8_ok (b # bs) =
     (if b < 128 then utf8_ok bs
      else if 194 \<le> b \<and> b \<le> 223 then
        (case bs of
           c1 # r \<Rightarrow> 128 \<le> c1 \<and> c1 \<le> 191 \<and> utf8_ok r
         | _ \<Rightarrow> False)
      else if 224 \<le> b \<and> b \<le> 239 then
        (case bs of
           c1 # c2 # r \<Rightarrow>
             (if b = 224 then 160 else 128) \<le> c1 \<and> c1 \<le> (if b = 237 then 159 else 191) \<and>
             128 \<le> c2 \<and> c2 \<le> 191 \<and> utf8_ok r
         | _ \<Rightarrow> False)
      else if 240 \<le> b \<and> b \<le> 244 then
        (case bs of
           c1 # c2 # c3 # r \<Rightarrow>
             (if b = 240 then 144 else 128) \<le> c1 \<and> c1 \<le> (if b = 244 then 143 else 191) \<and>
             128 \<le> c2 \<and> c2 \<le> 191 \<and> 128 \<le> c3 \<and> c3 \<le> 191 \<and> utf8_ok r
         | _ \<Rightarrow> False)
      else False)"

definition valid_utf8 :: "string \<Rightarrow> bool" where
  "valid_utf8 s = utf8_ok (map of_char s)"

definition print :: "string \<Rightarrow> exn + unit" where
  "print s =
     (if valid_utf8 s then Inr ()
      else Inl (UnicodeEncodeError ''utf-8 codec cannot encode character: surrogates not allowed''))"

text \<open>A text without a byte above 127.\<close>

definition ascii_text :: "string \<Rightarrow> bool" where
  "ascii_text s = list_all (\<lambda>c. \<not> digit7 c) s"

text \<open>
  A Python \<^verbatim>\<open>dict\<close> keeps its keys in insertion order; assigning to a key that is
  present replaces the value in place.
\<close>

fun dict_set :: "'k \<Rightarrow> 'v \<Rightarrow> ('k \<times> 'v) list \<Rightarrow> ('k \<times> 'v) list" where
  "dict_set k v [] = [(k, v)]"
| "dict_set k v ((k', v') # d) = (if k' = k then (k, v) # d else (k', v') # dict_set k v d)"

definition dict_has :: "'k \<Rightarrow> ('k \<times> 'v) list \<Rightarrow> bool" where
  "dict_has k d = (k \<in> set (map fst d))"

definition dict_get :: "('k \<times> 'v) list \<Rightarrow> 'k \<Rightarrow> 'v \<Rightarrow> 'v" where
  "dict_get d k dflt = (case map_of d k of None \<Rightarrow> dflt | Some v \<Rightarrow> v)"

text \<open>\<^verbatim>\<open>d.update(e)\<close>: the entries of \<open>e\<close> are assigned in their order.\<close>

definition dict_update :: "('k \<times> 'v) list \<Rightarrow> ('k \<times> 'v) list \<Rightarrow> ('k \<times> 'v) list" where
  "dict_update d e = foldl (\<lambda>acc kv. dict_set (fst kv) (snd kv) acc) d e"

datatype pyval = PyBool bool | PyStr string | PyNone

subsection \<open>Dates\<close>

record datetime =
  year :: nat
  month :: nat
  day :: nat
  hour :: nat
  minute :: nat
  second :: nat
  microsecond :: nat

text \<open>Decimal digits, zero-padded to two and to four places.\<close>

definition digit :: "nat \<Rightarrow> char" where
  "digit n = ''0123456789'' ! (n mod 10)"

definition dec2 :: "nat \<Rightarrow> string" where
  "dec2 n = [digit (n div 10), digit n]"

definition dec4 :: "nat \<Rightarrow> string" where
  "dec4 n = [digit (n div 1000), digit (n div 100), digit (n div 10), digit n]"

text \<open>\<^verbatim>\<open>strftime('%Y-%m-%d %H:%M:%S')\<close> and \<^verbatim>\<open>strftime('%Y%m%d%H%M%S')\<close>.\<close>

definition strftime_dashed :: "datetime \<Rightarrow> string" where
  "strftime_dashed t =
     dec4 (year t) @ ''-'' @ dec2 (month t) @ ''-'' @ dec2 (day t) @ '' '' @
     dec2 (hour t) @ '':'' @ dec2 (minute t) @ '':'' @ dec2 (second t)"

definition strftime_compact :: "datetime \<Rightarrow> string" where
  "strftime_compact t =
     dec4 (year t) @ dec2 (month t) @ dec2 (day t) @
     dec2 (hour t) @ dec2 (minute t) @ dec2 (second t)"

definition is_leap :: "nat \<Rightarrow> bool" where
  "is_leap y = (y mod 4 = 0 \<and> (y mod 100 \<noteq> 0 \<or> y mod 400 = 0))"

text \<open>
  \<^verbatim>\<open>dt.replace(year=y)\<close> raises ValueError when the day does not exist in the new
  year (29 February) or the year leaves 1..9999.
\<close>

definition replace_year :: "datetime \<Rightarrow> nat \<Rightarrow> exn + datetime" where
  "replace_year t y =
     (if y < 1 \<or> 9999 < y then Inl (ValueError ''year is out of range'')
      else if month t = 2 \<and> day t = 29 \<and> \<not> is_leap y
        then Inl (ValueError ''day is out of range for month'')
      else Inr (t\<lparr>year := y\<rparr>))"

subsection \<open>Keys, certificates, documents and files\<close>

datatype oid = COMMON_NAME | COUNTRY_NAME | EMAIL_ADDRESS | ORGANIZATION_NAME

type_synonym name = "(oid \<times> string) list"

text \<open>
  A private key is RSA (as \<^verbatim>\<open>generate\<close> makes them) or of another kind that a PEM file
  may hold; the number stands for the key material.
\<close>

datatype private_key = RSAPrivateKey nat | OtherPrivateKey nat

datatype public_key = RSAPublicKey nat | OtherPublicKey nat

fun public_key_of :: "private_key \<Rightarrow> public_key" where
  "public_key_of (RSAPrivateKey k) = RSAPublicKey k"
| "public_key_of (OtherPrivateKey k) = OtherPublicKey k"

record certificate =
  subject :: name
  issuer :: name
  cert_public_key :: public_key
  serial_number :: nat
  not_valid_before_utc :: datetime
  not_valid_after_utc :: datetime

datatype canvas_op =
    SetStrokeColor string
  | SetLineWidth nat
  | Rect int int int int
  | SetFillColor string
  | SetFont string nat
  | DrawString int int string

text \<open>A page is its own content and the overlays merged onto it, in order.\<close>

record page =
  content :: bytes
  merged :: "canvas_op list list"

definition merge_page :: "page \<Rightarrow> canvas_op list \<Rightarrow> page" where
  "merge_page p ov = p\<lparr>merged := merged p @ [ov]\<rparr>"

record pdf =
  pages :: "page list"
  metadata :: "(string \<times> string) list option"

text \<open>
  A file is modelled by what the libraries read from it: a document (with its raw
  bytes, which the signature is computed over), a PEM certificate, a PEM private key
  (with the password it is encrypted under, if any), or anything else.
\<close>

datatype disk_file =
    PdfFile bytes pdf
  | CertFile certificate
  | KeyFile private_key "bytes option"
  | OtherFile bytes

record world =
  files :: "path \<Rightarrow> disk_file option"
  read_denied :: "path \<Rightarrow> bool"
  write_denied :: "path \<Rightarrow> bool"
  clock :: "nat \<Rightarrow> datetime"
  ticks :: nat
  entropy :: "nat \<Rightarrow> nat"
  draws :: nat

text \<open>Each reading of the clock and each draw of random bits is a new value.\<close>

definition now :: "world \<Rightarrow> datetime \<times> world" where
  "now w = (clock w (ticks w), w\<lparr>ticks := Suc (ticks w)\<rparr>)"

definition urandom :: "world \<Rightarrow> nat \<times> world" where
  "urandom w = (entropy w (draws w), w\<lparr>draws := Suc (draws w)\<rparr>)"

definition path_exists :: "world \<Rightarrow> path \<Rightarrow> bool" where
  "path_exists w p = (files w p \<noteq> None)"

text \<open>
  The message of an error of \<^verbatim>\<open>open\<close> names the file through \<^verbatim>\<open>repr\<close>, which escapes
  a lone surrogate; the model keeps the part before the name.
\<close>

definition open_rb :: "world \<Rightarrow> path \<Rightarrow> exn + disk_file" where
  "open_rb w p =
     (case files w p of
        None \<Rightarrow> Inl (FileNotFoundError ''[Errno 2] No such file or directory'')
      | Some f \<Rightarrow>
          if read_denied w p then Inl (PermissionError ''[Errno 13] Permission denied'') else Inr f)"

definition open_wb_write :: "world \<Rightarrow> path \<Rightarrow> disk_file \<Rightarrow> exn + world" where
  "open_wb_write w p f =
     (if write_denied w p then Inl (PermissionError ''[Errno 13] Permission denied'')
      else Inr (w\<lparr>files := (files w)(p \<mapsto> f)\<rparr>))"

text \<open>The reader raises on what is not a document; the text of the error is a stand-in.\<close>

definition PdfReader :: "disk_file \<Rightarrow> exn + pdf" where
  "PdfReader f = (case f of PdfFile raw d \<Rightarrow> Inr d | _ \<Rightarrow> Inl (PdfReadError ''not a PDF''))"

fun read_bytes :: "disk_file \<Rightarrow> bytes" where
  "read_bytes (PdfFile raw d) = raw"
| "read_bytes (OtherFile raw) = raw"
| "read_bytes _ = []"

subsection \<open>The signer\<close>

record signer =
  private_key :: "private_key option"
  certificate :: "certificate option"
  signature_info :: "(string \<times> string) list"

definition init :: signer where
  "init = \<lparr>private_key = None, certificate = None, signature_info = []\<rparr>"

subsection \<open>verify_signature\<close>

definition result0 :: "(string \<times> pyval) list" where
  "result0 =
     [(''is_signed'', PyBool False), (''is_valid'', PyBool False),
      (''signer'', PyStr ''Unknown''), (''signature_date'', PyStr ''Unknown''),
      (''error'', PyNone)]"

definition signing_producer :: string where
  "signing_producer = ''Thomson PDF Generator Digital Signature''"

text \<open>
  The body of the \<^verbatim>\<open>try\<close> block, on the result dictionary built before it. Opening
  and parsing may raise; nothing after the first assignment to the dictionary does.
\<close>

definition verify_try :: "world \<Rightarrow> path \<Rightarrow> (string \<times> pyval) list \<Rightarrow> exn + (string \<times> pyval) list" where
  "verify_try w pdf_path result =
     (if \<not> path_exists w pdf_path then Inr (dict_set ''error'' (PyStr ''PDF file not found'') result)
      else case open_rb w pdf_path of
        Inl e \<Rightarrow> Inl e
      | Inr f \<Rightarrow>
         (case PdfReader f of
            Inl e \<Rightarrow> Inl e
          | Inr pdf_reader \<Rightarrow>
             (case metadata pdf_reader of
                None \<Rightarrow> Inr (dict_set ''error'' (PyStr ''No metadata found in PDF'') result)
              | Some md \<Rightarrow>
                 if md = [] then Inr (dict_set ''error'' (PyStr ''No metadata found in PDF'') result)
                 else if dict_has ''/Signature'' md then
                   (let r1 = dict_set ''is_signed'' (PyBool True) result;
                        r2 = dict_set ''signer'' (PyStr (dict_get md ''/Author'' ''Unknown'')) r1;
                        r3 = dict_set ''signature_date'' (PyStr (dict_get md ''/ModDate'' ''Unknown'')) r2
                    in if map_of md ''/Producer'' = Some signing_producer
                       then Inr (dict_set ''is_valid'' (PyBool True) r3)
                       else Inr (dict_set ''error'' (PyStr ''Signature format not recognized'') r3))
                 else Inr (dict_set ''error'' (PyStr ''No digital signature found'') result))))"

definition verify_signature :: "signer \<Rightarrow> world \<Rightarrow> path \<Rightarrow> exn + (string \<times> pyval) list" where
  "verify_signature self w pdf_path =
     (case verify_try w pdf_path result0 of
        Inl e \<Rightarrow> Inr (dict_set ''error'' (PyStr (''Error verifying signature: '' @ str_exn e)) result0)
      | Inr r \<Rightarrow> Inr r)"

subsection \<open>The libraries' own computations\<close>

text \<open>
  Two computations of the libraries are left open: the RSASSA-PSS signature of a message
  under a key with a given salt, and the bytes that the document writer produces.
  Every definition below takes them as the parameter \<open>L\<close>.
\<close>

record libs =
  pss_sign :: "nat \<Rightarrow> bytes \<Rightarrow> nat \<Rightarrow> bytes"
  pdf_write :: "pdf \<Rightarrow> bytes"

definition b64_alphabet :: string where
  "b64_alphabet = ''ABCDEFGHIJKLMNOPQRSTUVWXYZabcdefghijklmnopqrstuvwxyz0123456789+/''"

fun b64encode :: "bytes \<Rightarrow> string" where
  "b64encode [] = []"
| "b64encode [a] =
     [b64_alphabet ! (a div 4 mod 64), b64_alphabet ! (a mod 4 * 16), CHR ''='', CHR ''='']"
| "b64encode [a, b] =
     [b64_alphabet ! (a div 4 mod 64), b64_alphabet ! (a mod 4 * 16 + b div 16 mod 16),
      b64_alphabet ! (b mod 16 * 4), CHR ''='']"
| "b64encode (a # b # c # rest) =
     [b64_alphabet ! (a div 4 mod 64), b64_alphabet ! (a mod 4 * 16 + b div 16 mod 16),
      b64_alphabet ! (b mod 16 * 4 + c div 64 mod 4), b64_alphabet ! (c mod 64)] @ b64encode rest"

text \<open>\<^verbatim>\<open>Path(p).stem\<close>: the last component without its last suffix.\<close>

definition path_name :: "path \<Rightarrow> string" where
  "path_name p =
     rev (takeWhile (\<lambda>c. c \<noteq> CHR ''/'') (dropWhile (\<lambda>c. c = CHR ''/'') (rev p)))"

definition stem :: "path \<Rightarrow> string" where
  "stem p =
     (let name = path_name p in
      if CHR ''.'' \<notin> set name then name
      else let i = length name - 1 - length (takeWhile (\<lambda>c. c \<noteq> CHR ''.'') (rev name))
           in if 0 < i \<and> i < length name - 1 then take i name else name)"

text \<open>Truth of an optional string or byte string: neither None nor empty.\<close>

fun truthy :: "'a list option \<Rightarrow> bool" where
  "truthy None = False"
| "truthy (Some s) = (s \<noteq> [])"

definition or_else :: "'a list option \<Rightarrow> 'a list \<Rightarrow> 'a list" where
  "or_else x d = (case x of None \<Rightarrow> d | Some s \<Rightarrow> if s = [] then d else s)"

text \<open>
  Of the checks of \<^verbatim>\<open>x509.NameAttribute\<close> the model keeps two: an empty value and a
  country code that is not two characters long are refused. The library refuses more
  (a common name of more than 64 bytes, a country code outside PrintableString), so
  every generate that succeeds for the library succeeds in the model.
\<close>

definition NameAttribute :: "oid \<Rightarrow> string \<Rightarrow> exn + (oid \<times> string)" where
  "NameAttribute a v =
     (if v = [] then Inl (ValueError ''Value cannot be an empty string'')
      else if a = COUNTRY_NAME \<and> length v \<noteq> 2
        then Inl (ValueError ''Country name must be a 2 character country code'')
      else Inr (a, v))"

definition load_pem_x509_certificate :: "disk_file \<Rightarrow> exn + certificate" where
  "load_pem_x509_certificate f =
     (case f of CertFile c \<Rightarrow> Inr c | _ \<Rightarrow> Inl (ValueError ''Unable to load PEM file''))"

text \<open>
  \<^verbatim>\<open>load_pem_private_key\<close> raises for anything that is not a key, for an encrypted key
  without the right password, and for a password given with a key that is not encrypted.
\<close>

definition load_pem_private_key :: "disk_file \<Rightarrow> bytes option \<Rightarrow> exn + private_key" where
  "load_pem_private_key f password =
     (case f of
        KeyFile k enc \<Rightarrow>
          (case enc of
             None \<Rightarrow>
               (case password of
                  None \<Rightarrow> Inr k
                | Some q \<Rightarrow> Inl (TypeError ''Password was given but private key is not encrypted.''))
           | Some p \<Rightarrow>
               (case password of
                  None \<Rightarrow> Inl (TypeError ''Password was not given but private key is encrypted'')
                | Some q \<Rightarrow> if q = p then Inr k
                           else Inl (ValueError ''Bad decrypt. Incorrect password?'')))
      | _ \<Rightarrow> Inl (ValueError ''Could not deserialize key data.''))"

subsection \<open>generate_self_signed_certificate\<close>

definition optional_attribute :: "oid \<Rightarrow> string option \<Rightarrow> exn + name" where
  "optional_attribute a x =
     (if truthy x then (case NameAttribute a (the x) of Inl e \<Rightarrow> Inl e | Inr na \<Rightarrow> Inr [na])
      else Inr [])"

text \<open>
  The \<^verbatim>\<open>try\<close> block. The new key is assigned to the instance before anything else
  is built. The clock is read four times: for not-valid-before, for the receiver of
  \<^verbatim>\<open>replace\<close>, for the year passed to it, and for \<^verbatim>\<open>created\<close>.
\<close>

definition generate_try ::
  "signer \<Rightarrow> world \<Rightarrow> string \<Rightarrow> string option \<Rightarrow> string option \<Rightarrow> string
     \<Rightarrow> (exn + bool) \<times> signer \<times> world" where
  "generate_try self w common_name email organization country =
     (let (k, w1) = urandom w;
          self1 = self\<lparr>private_key := Some (RSAPrivateKey k)\<rparr>
      in case NameAttribute COMMON_NAME common_name of
           Inl e \<Rightarrow> (Inl e, self1, w1)
         | Inr a_cn \<Rightarrow>
        (case NameAttribute COUNTRY_NAME country of
           Inl e \<Rightarrow> (Inl e, self1, w1)
         | Inr a_c \<Rightarrow>
        (case optional_attribute EMAIL_ADDRESS email of
           Inl e \<Rightarrow> (Inl e, self1, w1)
         | Inr a_email \<Rightarrow>
        (case optional_attribute ORGANIZATION_NAME organization of
           Inl e \<Rightarrow> (Inl e, self1, w1)
         | Inr a_org \<Rightarrow>
        (let subj = [a_cn, a_c] @ a_email @ a_org;
             (serial, w2) = urandom w1;
             (t1, w3) = now w2;
             (t2, w4) = now w3;
             (t3, w5) = now w4
         in case replace_year t2 (year t3 + 1) of
              Inl e \<Rightarrow> (Inl e, self1, w5)
            | Inr nva \<Rightarrow>
           (let cert = \<lparr>subject = subj, issuer = subj,
                        cert_public_key = public_key_of (RSAPrivateKey k),
                        serial_number = serial,
                        not_valid_before_utc = t1, not_valid_after_utc = nva\<rparr>;
                self2 = self1\<lparr>certificate := Some cert\<rparr>;
                (t4, w6) = now w5;
                info = [(''common_name'', common_name),
                        (''email'', or_else email ''Not specified''),
                        (''organization'', or_else organization ''Not specified''),
                        (''country'', country),
                        (''created'', strftime_dashed t4),
                        (''valid_until'', strftime_dashed (not_valid_after_utc cert))]
            in (Inr True, self2\<lparr>signature_info := info\<rparr>, w6)))))))"

text \<open>
  The method itself: \<^verbatim>\<open>except Exception\<close> prints the message and returns False. The
  \<^verbatim>\<open>print\<close> stands in no \<^verbatim>\<open>try\<close>: when it raises, the method raises. The assignments
  made before the exception stay.
\<close>

definition generate_self_signed_certificate ::
  "signer \<Rightarrow> world \<Rightarrow> string \<Rightarrow> string option \<Rightarrow> string option \<Rightarrow> string
     \<Rightarrow> (exn + bool) \<times> signer \<times> world" where
  "generate_self_signed_certificate self w common_name email organization country =
     (case generate_try self w common_name email organization country of
        (Inl e, self', w') \<Rightarrow>
          (case print (''Error generating certificate: '' @ str_exn e) of
             Inl e' \<Rightarrow> (Inl e', self', w')
           | Inr u \<Rightarrow> (Inr False, self', w'))
      | (Inr b, self', w') \<Rightarrow> (Inr b, self', w'))"

subsection \<open>load_certificate_from_file and save_certificate\<close>

fun get_name_attribute :: "name \<Rightarrow> oid \<Rightarrow> string" where
  "get_name_attribute [] a = ''Not specified''"
| "get_name_attribute ((a', v) # rest) a = (if a' = a then v else get_name_attribute rest a)"

definition load_try ::
  "signer \<Rightarrow> world \<Rightarrow> path \<Rightarrow> path \<Rightarrow> bytes option \<Rightarrow> (exn + bool) \<times> signer" where
  "load_try self w cert_path key_path password =
     (case open_rb w cert_path of
        Inl e \<Rightarrow> (Inl e, self)
      | Inr cert_file \<Rightarrow>
     (case load_pem_x509_certificate cert_file of
        Inl e \<Rightarrow> (Inl e, self)
      | Inr c \<Rightarrow>
     (let self1 = self\<lparr>certificate := Some c\<rparr>
      in case open_rb w key_path of
           Inl e \<Rightarrow> (Inl e, self1)
         | Inr key_file \<Rightarrow>
        (case load_pem_private_key key_file password of
           Inl e \<Rightarrow> (Inl e, self1)
         | Inr k \<Rightarrow>
        (let self2 = self1\<lparr>private_key := Some k\<rparr>;
             subj = subject c;
             info = [(''common_name'', get_name_attribute subj COMMON_NAME),
                     (''email'', get_name_attribute subj EMAIL_ADDRESS),
                     (''organization'', get_name_attribute subj ORGANIZATION_NAME),
                     (''country'', get_name_attribute subj COUNTRY_NAME),
                     (''valid_from'', strftime_dashed (not_valid_before_utc c)),
                     (''valid_until'', strftime_dashed (not_valid_after_utc c))]
         in (Inr True, self2\<lparr>signature_info := info\<rparr>))))))"

definition load_certificate_from_file ::
  "signer \<Rightarrow> world \<Rightarrow> path \<Rightarrow> path \<Rightarrow> bytes option \<Rightarrow> (exn + bool) \<times> signer" where
  "load_certificate_from_file self w cert_path key_path password =
     (case load_try self w cert_path key_path password of
        (Inl e, self') \<Rightarrow>
          (case print (''Error loading certificate: '' @ str_exn e) of
             Inl e' \<Rightarrow> (Inl e', self')
           | Inr u \<Rightarrow> (Inr False, self'))
      | (Inr b, self') \<Rightarrow> (Inr b, self'))"

definition save_try ::
  "signer \<Rightarrow> world \<Rightarrow> path \<Rightarrow> path \<Rightarrow> bytes option \<Rightarrow> (exn + bool) \<times> world" where
  "save_try self w cert_path key_path password =
     (case (certificate self, private_key self) of
        (Some c, Some k) \<Rightarrow>
          (case open_wb_write w cert_path (CertFile c) of
             Inl e \<Rightarrow> (Inl e, w)
           | Inr w1 \<Rightarrow>
          (let encryption_algorithm = (if truthy password then password else None)
           in case open_wb_write w1 key_path (KeyFile k encryption_algorithm) of
                Inl e \<Rightarrow> (Inl e, w1)
              | Inr w2 \<Rightarrow> (Inr True, w2)))
      | _ \<Rightarrow> (Inr False, w))"

definition save_certificate ::
  "signer \<Rightarrow> world \<Rightarrow> path \<Rightarrow> path \<Rightarrow> bytes option \<Rightarrow> (exn + bool) \<times> world" where
  "save_certificate self w cert_path key_path password =
     (case save_try self w cert_path key_path password of
        (Inl e, w') \<Rightarrow>
          (case print (''Error saving certificate: '' @ str_exn e) of
             Inl e' \<Rightarrow> (Inl e', w')
           | Inr u \<Rightarrow> (Inr False, w'))
      | (Inr b, w') \<Rightarrow> (Inr b, w'))"

definition get_certificate_info :: "signer \<Rightarrow> (string \<times> string) list" where
  "get_certificate_info self = (if certificate self = None then [] else signature_info self)"

definition is_certificate_loaded :: "signer \<Rightarrow> bool" where
  "is_certificate_loaded self = (certificate self \<noteq> None \<and> private_key self \<noteq> None)"

subsection \<open>sign_pdf\<close>

definition create_signature_overlay ::
  "signer \<Rightarrow> string \<Rightarrow> string \<Rightarrow> (int \<times> int) option \<Rightarrow> canvas_op list" where
  "create_signature_overlay self signature_text timestamp position =
     (let (x, y) = (case position of None \<Rightarrow> (400, 50) | Some xy \<Rightarrow> xy)
      in [SetStrokeColor ''blue'', SetLineWidth 2, Rect (x - 10) (y - 10) 200 80,
          SetFillColor ''blue'', SetFont ''Helvetica-Bold'' 10,
          DrawString x (y + 50) ''DIGITALLY SIGNED'',
          SetFont ''Helvetica'' 9,
          DrawString x (y + 35) (take 30 signature_text),
          SetFont ''Helvetica'' 8,
          DrawString x (y + 20) (''Date: '' @ timestamp),
          DrawString x (y + 10)
            (''By: '' @ take 25 (dict_get (signature_info self) ''common_name'' ''Unknown'')),
          DrawString x y
            (''Org: '' @ take 25 (dict_get (signature_info self) ''organization'' ''N/A''))])"

text \<open>
  The signature over the raw bytes of the document. Only an RSA key accepts the call
  with a padding and a hash; the salt of the padding is drawn at random.
\<close>

definition document_hash_try :: "libs \<Rightarrow> signer \<Rightarrow> world \<Rightarrow> path \<Rightarrow> (exn + bytes) \<times> world" where
  "document_hash_try L self w pdf_path =
     (case open_rb w pdf_path of
        Inl e \<Rightarrow> (Inl e, w)
      | Inr f \<Rightarrow>
          (let content = read_bytes f
           in case private_key self of
                None \<Rightarrow> (Inl (AttributeError ''NoneType object has no attribute sign''), w)
              | Some (OtherPrivateKey k) \<Rightarrow> (Inl (TypeError ''sign() takes 3 positional arguments''), w)
              | Some (RSAPrivateKey k) \<Rightarrow>
                  (let (salt, w1) = urandom w in (Inr (pss_sign L k content salt), w1))))"

text \<open>The helper itself: its handler prints the message and returns the empty bytes.\<close>

definition create_document_hash ::
  "libs \<Rightarrow> signer \<Rightarrow> world \<Rightarrow> path \<Rightarrow> (exn + bytes) \<times> world" where
  "create_document_hash L self w pdf_path =
     (case document_hash_try L self w pdf_path of
        (Inl e, w') \<Rightarrow>
          (case print (''Error creating document hash: '' @ str_exn e) of
             Inl e' \<Rightarrow> (Inl e', w')
           | Inr u \<Rightarrow> (Inr [], w'))
      | (Inr signature, w') \<Rightarrow> (Inr signature, w'))"

text \<open>
  The loop over \<^verbatim>\<open>enumerate(pdf_reader.pages)\<close>: \<open>i\<close> is the index of the next page,
  \<open>n\<close> the number of pages of the reader, \<open>out\<close> the pages added to the writer so far.
\<close>

fun add_all_pages :: "nat \<Rightarrow> nat \<Rightarrow> page list \<Rightarrow> canvas_op list \<Rightarrow> page list \<Rightarrow> page list" where
  "add_all_pages i n [] signature_page out = out"
| "add_all_pages i n (p # ps) signature_page out =
     (let p' = (if int i = int n - 1 then merge_page p signature_page else p)
      in add_all_pages (Suc i) n ps signature_page (out @ [p']))"

text \<open>A new writer already names its library as producer.\<close>

definition writer_info0 :: "(string \<times> string) list" where
  "writer_info0 = [(''/Producer'', ''PyPDF2'')]"

definition sign_try ::
  "libs \<Rightarrow> signer \<Rightarrow> world \<Rightarrow> path \<Rightarrow> path option \<Rightarrow> string option \<Rightarrow> (int \<times> int) option
     \<Rightarrow> (exn + bool) \<times> world" where
  "sign_try L self w pdf_path output_path signature_text position =
     (if private_key self = None \<or> certificate self = None
        then (Inl (ValueError ''No certificate loaded. Generate or load a certificate first.''), w)
      else if \<not> path_exists w pdf_path
        then (Inl (FileNotFoundError (''PDF file not found: '' @ pdf_path)), w)
      else
        (let output_path' = (case output_path of None \<Rightarrow> pdf_path | Some p \<Rightarrow> p);
             (t, w1) = now w;
             timestamp = strftime_dashed t;
             signature_text' =
               (case signature_text of
                  None \<Rightarrow> ''Digitally signed by '' @
                            dict_get (signature_info self) ''common_name'' ''Unknown''
                | Some s \<Rightarrow> s);
             signature_buffer = create_signature_overlay self signature_text' timestamp position
         in case open_rb w1 pdf_path of
              Inl e \<Rightarrow> (Inl e, w1)
            | Inr f \<Rightarrow>
           (case PdfReader f of
              Inl e \<Rightarrow> (Inl e, w1)
            | Inr pdf_reader \<Rightarrow>
           (let writer_pages =
                  add_all_pages 0 (length (pages pdf_reader)) (pages pdf_reader) signature_buffer [];
                (t2, w2) = now w1;
                (hashed, w3) = create_document_hash L self w2 pdf_path
            in case hashed of
                 Inl e \<Rightarrow> (Inl e, w3)
               | Inr signature \<Rightarrow>
              (let info = dict_update writer_info0
                     [(''/Title'', ''Signed PDF - '' @ stem pdf_path),
                      (''/Author'', dict_get (signature_info self) ''common_name'' ''Unknown''),
                      (''/Subject'', ''Digitally Signed Document''),
                      (''/Creator'', ''Thomson PDF Generator''),
                      (''/Producer'', ''Thomson PDF Generator Digital Signature''),
                      (''/ModDate'', ''D:'' @ strftime_compact t2),
                      (''/Signature'', b64encode signature)];
                   out = \<lparr>pages = writer_pages, metadata = Some info\<rparr>
               in case open_wb_write w3 output_path' (PdfFile (pdf_write L out) out) of
                    Inl e \<Rightarrow> (Inl e, w3)
                  | Inr w4 \<Rightarrow> (Inr True, w4))))))"

definition sign_pdf ::
  "libs \<Rightarrow> signer \<Rightarrow> world \<Rightarrow> path \<Rightarrow> path option \<Rightarrow> string option \<Rightarrow> (int \<times> int) option
     \<Rightarrow> (exn + bool) \<times> world" where
  "sign_pdf L self w pdf_path output_path signature_text position =
     (case sign_try L self w pdf_path output_path signature_text position of
        (Inl e, w') \<Rightarrow>
          (case print (''Error signing PDF: '' @ str_exn e) of
             Inl e' \<Rightarrow> (Inl e', w')
           | Inr u \<Rightarrow> (Inr False, w'))
      | (Inr b, w') \<Rightarrow> (Inr b, w'))"

text \<open>
  What a reader finds as the metadata of the document at a path: the dictionary of a
  readable document that has one, and no entry otherwise.
\<close>

definition document_metadata :: "world \<Rightarrow> path \<Rightarrow> (string \<times> string) list" where
  "document_metadata w p =
     (case open_rb w p of
        Inr (PdfFile raw d) \<Rightarrow> (case metadata d of Some md \<Rightarrow> md | None \<Rightarrow> [])
      | _ \<Rightarrow> [])"

text \<open>
  Reading the two timestamps of the signer details back: the second text names an
  instant exactly one year after the first when its four-digit year is one more and
  the rest of the text (month, day, hour, minute, second) is the same.
\<close>

definition digit_value :: "char \<Rightarrow> nat" where
  "digit_value c = length (takeWhile (\<lambda>d. d \<noteq> c) ''0123456789'')"

definition read_dec :: "string \<Rightarrow> nat" where
  "read_dec s = foldl (\<lambda>a c. 10 * a + digit_value c) 0 s"

definition exactly_one_year_after :: "string \<Rightarrow> string \<Rightarrow> bool" where
  "exactly_one_year_after later earlier =
     (read_dec (take 4 later) = read_dec (take 4 earlier) + 1 \<and> drop 4 later = drop 4 earlier)"

subsection \<open>A concrete environment\<close>

text \<open>
  A small world on which the model runs: one three-page document, a certificate and
  an encrypted key on disk, a clock and a random source. The stand-in for the libraries
  puts the key, the salt and the message into the signature, so that, as with
  RSASSA-PSS, a different salt gives a different signature.
\<close>

definition base_time :: datetime where
  "base_time = \<lparr>year = 2025, month = 3, day = 1, hour = 10, minute = 0, second = 0, microsecond = 0\<rparr>"

definition demo_libs :: libs where
  "demo_libs = \<lparr>pss_sign = (\<lambda>k m s. [k mod 256, s mod 256] @ m),
                 pdf_write = (\<lambda>d. concat (map content (pages d)))\<rparr>"

definition demo_cert :: certificate where
  "demo_cert = \<lparr>subject = [(COMMON_NAME, ''Bob''), (COUNTRY_NAME, ''DE'')],
                 issuer = [(COMMON_NAME, ''Bob''), (COUNTRY_NAME, ''DE'')],
                 cert_public_key = RSAPublicKey 7, serial_number = 1,
                 not_valid_before_utc = base_time,
                 not_valid_after_utc = base_time\<lparr>year := 2026\<rparr>\<rparr>"

definition carol_cert :: certificate where
  "carol_cert = \<lparr>subject = [(COMMON_NAME, ''Carol''), (COUNTRY_NAME, ''FR'')],
                  issuer = [(COMMON_NAME, ''Carol''), (COUNTRY_NAME, ''FR'')],
                  cert_public_key = RSAPublicKey 8, serial_number = 2,
                  not_valid_before_utc = base_time,
                  not_valid_after_utc = base_time\<lparr>year := 2026\<rparr>\<rparr>"

definition demo_pdf :: pdf where
  "demo_pdf = \<lparr>pages = [\<lparr>content = [1], merged = []\<rparr>, \<lparr>content = [2], merged = []\<rparr>,
                         \<lparr>content = [3], merged = []\<rparr>],
                metadata = None\<rparr>"

definition signed_pdf :: pdf where
  "signed_pdf = \<lparr>pages = [\<lparr>content = [4], merged = []\<rparr>],
                  metadata = Some [(''/Producer'', ''Thomson PDF Generator Digital Signature''),
                                   (''/Author'', ''Bob''), (''/ModDate'', ''D:20250301100000''),
                                   (''/Signature'', ''QUJD'')]\<rparr>"

definition demo_files :: "path \<Rightarrow> disk_file option" where
  "demo_files =
     [''in.pdf'' \<mapsto> PdfFile [37, 80, 68, 70] demo_pdf,
      ''signed.pdf'' \<mapsto> PdfFile [37, 80] signed_pdf,
      ''bob.pem'' \<mapsto> CertFile demo_cert,
      ''bob.key'' \<mapsto> KeyFile (RSAPrivateKey 7) (Some [115, 51]),
      ''carol.pem'' \<mapsto> CertFile carol_cert,
      ''carol.key'' \<mapsto> KeyFile (RSAPrivateKey 8) (Some [99])]"

definition demo_world :: world where
  "demo_world = \<lparr>files = demo_files, read_denied = (\<lambda>p. False), write_denied = (\<lambda>p. False),
                  clock = (\<lambda>n. base_time\<lparr>microsecond := n\<rparr>), ticks = 0,
                  entropy = (\<lambda>n. n + 11), draws = 0\<rparr>"

text \<open>The manager after loading that certificate and key with the right password.\<close>

definition bob_signer :: signer where
  "bob_signer = \<lparr>private_key = Some (RSAPrivateKey 7), certificate = Some demo_cert,
                  signature_info = [(''common_name'', ''Bob''), (''email'', ''Not specified''),
                                    (''organization'', ''Not specified''), (''country'', ''DE''),
                                    (''valid_from'', ''2025-03-01 10:00:00''),
                                    (''valid_until'', ''2026-03-01 10:00:00'')]\<rparr>"

text \<open>The same manager holding a key that is not an RSA key.\<close>

definition other_key_signer :: signer where
  "other_key_signer = bob_signer\<lparr>private_key := Some (OtherPrivateKey 9)\<rparr>"

text \<open>
  The manager that holds Bob's pair after a further load of Carol's certificate with
  a wrong password for Carol's key.
\<close>

definition mixed_signer :: signer where
  "mixed_signer =
     snd (load_certificate_from_file bob_signer demo_world ''carol.pem'' ''carol.key'' (Some [120]))"

text \<open>A clock whose readings, microseconds apart, cross the boundary of a second.\<close>

definition boundary_world :: world where
  "boundary_world =
     demo_world\<lparr>clock := (\<lambda>n. if n < 3 then base_time\<lparr>microsecond := 999990 + n\<rparr>
                              else base_time\<lparr>second := 1, microsecond := n\<rparr>)\<rparr>"

text \<open>The world after signing the document once, and after signing it a second time.\<close>

definition signed_once :: world where
  "signed_once = snd (sign_pdf demo_libs bob_signer demo_world ''in.pdf'' (Some ''out1.pdf'') None None)"

definition signed_twice :: world where
  "signed_twice = snd (sign_pdf demo_libs bob_signer signed_once ''in.pdf'' (Some ''out2.pdf'') None None)"

text \<open>
  A path that names no file and is not UTF-8: its first byte, 0x80, is what Python
  keeps as the lone surrogate U+DC80.
\<close>

definition surrogate_path :: path where
  "surrogate_path = CHR 0x80 # ''.pdf''"

section \<open>Properties\<close>

subsection \<open>Dictionaries\<close>

lemma map_of_dict_set: "map_of (dict_set k v d) = (map_of d)(k \<mapsto> v)"
  by (induction d) (auto simp: fun_eq_iff)

lemma keys_dict_set: "set (map fst (dict_set k v d)) = insert k (set (map fst d))"
  using dom_map_of_conv_image_fst [of "dict_set k v d"] dom_map_of_conv_image_fst [of d]
  by (simp add: map_of_dict_set)

lemma dict_set_not_Nil: "dict_set k v d \<noteq> []"
  by (cases d) (auto split: if_splits)

lemma dict_has_dict_set: "dict_has k' (dict_set k v d) = (k' = k \<or> dict_has k' d)"
  by (auto simp: dict_has_def keys_dict_set simp del: set_map)

lemma dict_get_dict_set:
  "dict_get (dict_set k v d) k' dflt = (if k' = k then v else dict_get d k' dflt)"
  by (simp add: dict_get_def map_of_dict_set)

subsection \<open>Printing in the handlers\<close>

lemma of_char_ascii: "\<not> digit7 c \<Longrightarrow> (of_char c :: nat) < 128"
proof -
  assume "\<not> digit7 c"
  then have "(of_char c :: nat) = of_char c mod 128"
    by (cases c) (simp add: of_char_def)
  then show ?thesis by (metis mod_less_divisor zero_less_numeral)
qed

lemma valid_utf8_ascii_append: "ascii_text s \<Longrightarrow> valid_utf8 (s @ t) = valid_utf8 t"
  by (induction s) (simp_all add: valid_utf8_def ascii_text_def of_char_ascii)

lemma valid_utf8_ascii: "ascii_text s \<Longrightarrow> valid_utf8 s"
  using valid_utf8_ascii_append [of s "[]"] by (simp add: valid_utf8_def)

lemma print_ascii: "ascii_text p \<Longrightarrow> ascii_text m \<Longrightarrow> print (p @ m) = Inr ()"
  by (simp add: print_def valid_utf8_ascii_append valid_utf8_ascii)

text \<open>The messages of the library errors are plain texts.\<close>

lemma open_rb_error: "open_rb w p = Inl e \<Longrightarrow> ascii_text (str_exn e)"
  by (auto simp: open_rb_def ascii_text_def split: option.splits if_splits)

lemma open_wb_write_error: "open_wb_write w p f = Inl e \<Longrightarrow> ascii_text (str_exn e)"
  by (auto simp: open_wb_write_def ascii_text_def split: if_splits)

lemma PdfReader_error: "PdfReader f = Inl e \<Longrightarrow> ascii_text (str_exn e)"
  by (auto simp: PdfReader_def ascii_text_def split: disk_file.splits)

lemma NameAttribute_error: "NameAttribute a v = Inl e \<Longrightarrow> ascii_text (str_exn e)"
  by (auto simp: NameAttribute_def ascii_text_def split: if_splits)

lemma optional_attribute_error: "optional_attribute a x = Inl e \<Longrightarrow> ascii_text (str_exn e)"
  by (auto simp: optional_attribute_def split: if_splits sum.splits dest: NameAttribute_error)

lemma replace_year_error: "replace_year t y = Inl e \<Longrightarrow> ascii_text (str_exn e)"
  by (auto simp: replace_year_def ascii_text_def split: if_splits)

lemma load_pem_x509_certificate_error:
  "load_pem_x509_certificate f = Inl e \<Longrightarrow> ascii_text (str_exn e)"
  by (auto simp: load_pem_x509_certificate_def ascii_text_def split: disk_file.splits)

lemma load_pem_private_key_error:
  "load_pem_private_key f pw = Inl e \<Longrightarrow> ascii_text (str_exn e)"
  by (auto simp: load_pem_private_key_def ascii_text_def
      split: disk_file.splits option.splits if_splits)

lemmas library_errors =
  open_rb_error open_wb_write_error PdfReader_error NameAttribute_error optional_attribute_error
  replace_year_error load_pem_x509_certificate_error load_pem_private_key_error

lemma generate_try_error:
  "generate_try self w cn em org co = (Inl e, self', w') \<Longrightarrow> ascii_text (str_exn e)"
  by (auto simp: generate_try_def Let_def split_def split: sum.splits dest: library_errors)

lemma load_try_error:
  "load_try self w cp kp pw = (Inl e, self') \<Longrightarrow> ascii_text (str_exn e)"
  by (auto simp: load_try_def Let_def split: sum.splits dest: library_errors)

lemma save_try_error:
  "save_try self w cp kp pw = (Inl e, w') \<Longrightarrow> ascii_text (str_exn e)"
  by (auto simp: save_try_def Let_def split: sum.splits option.splits dest: library_errors)

lemma document_hash_try_error:
  "document_hash_try L self w p = (Inl e, w') \<Longrightarrow> ascii_text (str_exn e)"
  by (auto simp: document_hash_try_def Let_def split_def ascii_text_def
      split: sum.splits option.splits private_key.splits dest: library_errors)

text \<open>
  So the handlers of generate, load, save and of the signing helper always print, and
  these methods are their \<^verbatim>\<open>try\<close> block with every exception turned into the value
  returned on failure.
\<close>

lemma generate_eq:
  "generate_self_signed_certificate self w cn em org co =
     (case generate_try self w cn em org co of
        (Inl e, self', w') \<Rightarrow> (Inr False, self', w')
      | (Inr b, self', w') \<Rightarrow> (Inr b, self', w'))"
proof (cases "generate_try self w cn em org co")
  case (fields r self' w')
  show ?thesis
  proof (cases r)
    case (Inl e)
    with fields have "ascii_text (str_exn e)" by (auto dest: generate_try_error)
    then have "print (''Error generating certificate: '' @ str_exn e) = Inr ()"
      by (intro print_ascii) (simp_all add: ascii_text_def)
    with fields Inl show ?thesis by (simp add: generate_self_signed_certificate_def)
  next
    case (Inr b)
    with fields show ?thesis by (simp add: generate_self_signed_certificate_def)
  qed
qed

lemma load_eq:
  "load_certificate_from_file self w cp kp pw =
     (case load_try self w cp kp pw of
        (Inl e, self') \<Rightarrow> (Inr False, self')
      | (Inr b, self') \<Rightarrow> (Inr b, self'))"
proof (cases "load_try self w cp kp pw")
  case (Pair r self')
  show ?thesis
  proof (cases r)
    case (Inl e)
    with Pair have "ascii_text (str_exn e)" by (auto dest: load_try_error)
    then have "print (''Error loading certificate: '' @ str_exn e) = Inr ()"
      by (intro print_ascii) (simp_all add: ascii_text_def)
    with Pair Inl show ?thesis by (simp add: load_certificate_from_file_def)
  next
    case (Inr b)
    with Pair show ?thesis by (simp add: load_certificate_from_file_def)
  qed
qed

lemma save_eq:
  "save_certificate self w cp kp pw =
     (case save_try self w cp kp pw of
        (Inl e, w') \<Rightarrow> (Inr False, w')
      | (Inr b, w') \<Rightarrow> (Inr b, w'))"
proof (cases "save_try self w cp kp pw")
  case (Pair r w')
  show ?thesis
  proof (cases r)
    case (Inl e)
    with Pair have "ascii_text (str_exn e)" by (auto dest: save_try_error)
    then have "print (''Error saving certificate: '' @ str_exn e) = Inr ()"
      by (intro print_ascii) (simp_all add: ascii_text_def)
    with Pair Inl show ?thesis by (simp add: save_certificate_def)
  next
    case (Inr b)
    with Pair show ?thesis by (simp add: save_certificate_def)
  qed
qed

lemma hash_eq:
  "create_document_hash L self w p =
     (case document_hash_try L self w p of
        (Inl e, w') \<Rightarrow> (Inr [], w')
      | (Inr signature, w') \<Rightarrow> (Inr signature, w'))"
proof (cases "document_hash_try L self w p")
  case (Pair r w')
  show ?thesis
  proof (cases r)
    case (Inl e)
    with Pair have "ascii_text (str_exn e)" by (auto dest: document_hash_try_error)
    then have "print (''Error creating document hash: '' @ str_exn e) = Inr ()"
      by (intro print_ascii) (simp_all add: ascii_text_def)
    with Pair Inl show ?thesis by (simp add: create_document_hash_def)
  next
    case (Inr b)
    with Pair show ?thesis by (simp add: create_document_hash_def)
  qed
qed

lemma hash_returns: "\<exists>signature. fst (create_document_hash L self w p) = Inr signature"
  by (cases "document_hash_try L self w p") (auto simp: hash_eq split: sum.splits)

lemma hash_not_raised [simp]: "fst (create_document_hash L self w p) \<noteq> Inl e"
  using hash_returns [of L self w p] by auto

text \<open>
  The handler of \<^verbatim>\<open>sign_pdf\<close> prints a plain text too, except for the error that the
  method raises itself for a missing document: that message holds the path as given.
\<close>

lemma sign_try_error:
  "sign_try L self w pdf_path output_path signature_text position = (Inl e, w') \<Longrightarrow>
   ascii_text (str_exn e) \<or>
   (private_key self \<noteq> None \<and> certificate self \<noteq> None \<and> \<not> path_exists w pdf_path \<and>
    e = FileNotFoundError (''PDF file not found: '' @ pdf_path) \<and> w' = w)"
  by (auto simp: sign_try_def Let_def split_def ascii_text_def
      split: if_splits sum.splits dest: library_errors)

lemma sign_eq:
  assumes "private_key self = None \<or> certificate self = None \<or> path_exists w pdf_path
           \<or> valid_utf8 pdf_path"
  shows "sign_pdf L self w pdf_path output_path signature_text position =
     (case sign_try L self w pdf_path output_path signature_text position of
        (Inl e, w') \<Rightarrow> (Inr False, w')
      | (Inr b, w') \<Rightarrow> (Inr b, w'))"
proof (cases "sign_try L self w pdf_path output_path signature_text position")
  case (Pair r w')
  show ?thesis
  proof (cases r)
    case (Inl e)
    from sign_try_error [of L self w pdf_path output_path signature_text position e w'] Pair Inl assms
    have "ascii_text (str_exn e) \<or> (e = FileNotFoundError (''PDF file not found: '' @ pdf_path)
            \<and> valid_utf8 pdf_path)"
      by auto
    then have "print (''Error signing PDF: '' @ str_exn e) = Inr ()"
    proof
      assume "ascii_text (str_exn e)"
      then show ?thesis by (intro print_ascii) (simp_all add: ascii_text_def)
    next
      assume "e = FileNotFoundError (''PDF file not found: '' @ pdf_path) \<and> valid_utf8 pdf_path"
      moreover have "ascii_text (''Error signing PDF: '' @ ''PDF file not found: '')"
        by (simp add: ascii_text_def)
      ultimately show ?thesis
        using valid_utf8_ascii_append [of "''Error signing PDF: '' @ ''PDF file not found: ''" pdf_path]
        by (simp add: print_def)
    qed
    with Pair Inl show ?thesis by (simp add: sign_pdf_def)
  next
    case (Inr b)
    with Pair show ?thesis by (simp add: sign_pdf_def)
  qed
qed

subsection \<open>Verification\<close>

text \<open>
  C9. Whatever the path, \<^verbatim>\<open>verify_signature\<close> returns a dictionary with exactly the
  five keys is_signed, is_valid, signer, signature_date and error; is_valid is true only
  if is_signed is; and error is None exactly when is_valid is true.
\<close>

theorem verify_result_invariants:
  "\<exists>r. verify_signature self w p = Inr r \<and>
     map fst r = [''is_signed'', ''is_valid'', ''signer'', ''signature_date'', ''error''] \<and>
     (map_of r ''is_valid'' = Some (PyBool True) \<longrightarrow> map_of r ''is_signed'' = Some (PyBool True)) \<and>
     (map_of r ''error'' = Some PyNone \<longleftrightarrow> map_of r ''is_valid'' = Some (PyBool True))"
  unfolding verify_signature_def verify_try_def result0_def
  by (simp split: sum.splits option.splits add: Let_def)

theorem verify_result_invariants_witness:
  "verify_signature init demo_world ''signed.pdf'' =
     Inr [(''is_signed'', PyBool True), (''is_valid'', PyBool True), (''signer'', PyStr ''Bob''),
          (''signature_date'', PyStr ''D:20250301100000''), (''error'', PyNone)]
   \<and> verify_signature init demo_world ''in.pdf'' =
     Inr [(''is_signed'', PyBool False), (''is_valid'', PyBool False), (''signer'', PyStr ''Unknown''),
          (''signature_date'', PyStr ''Unknown''), (''error'', PyStr ''No metadata found in PDF'')]"
  using verify_result_invariants [of init demo_world "''signed.pdf''"]
    verify_result_invariants [of init demo_world "''in.pdf''"]
  by (simp add: verify_signature_def verify_try_def result0_def path_exists_def open_rb_def
      PdfReader_def demo_world_def demo_files_def signed_pdf_def demo_pdf_def dict_has_def
      dict_get_def signing_producer_def)

text \<open>
  C1. \<^verbatim>\<open>verify_signature\<close> reports is_signed as true exactly when the metadata of the
  document has the key /Signature, and is_valid as true only if the /Producer entry is
  the signing producer string. The result depends neither on the signer nor on the
  value stored under /Signature, the pages or the raw bytes of the document: replacing
  them leaves the result as it was.
\<close>

theorem verify_checks_metadata_only:
  "(\<exists>r. verify_signature self w p = Inr r \<and>
      map_of r ''is_signed'' = Some (PyBool (dict_has ''/Signature'' (document_metadata w p))) \<and>
      (map_of r ''is_valid'' = Some (PyBool True) \<longrightarrow>
         map_of (document_metadata w p) ''/Producer'' = Some signing_producer))
   \<and> (\<forall>raw d md raw' ps' v self'.
         files w p = Some (PdfFile raw d) \<and> metadata d = Some md \<and> dict_has ''/Signature'' md \<longrightarrow>
         verify_signature self'
           (w\<lparr>files := (files w)(p \<mapsto>
                PdfFile raw' (d\<lparr>pages := ps', metadata := Some (dict_set ''/Signature'' v md)\<rparr>))\<rparr>) p
         = verify_signature self w p)"
proof (intro conjI allI impI)
  show "\<exists>r. verify_signature self w p = Inr r \<and>
      map_of r ''is_signed'' = Some (PyBool (dict_has ''/Signature'' (document_metadata w p))) \<and>
      (map_of r ''is_valid'' = Some (PyBool True) \<longrightarrow>
         map_of (document_metadata w p) ''/Producer'' = Some signing_producer)"
    unfolding verify_signature_def verify_try_def result0_def document_metadata_def
    by (auto split: sum.splits option.splits disk_file.splits
        simp: Let_def dict_has_def open_rb_def path_exists_def PdfReader_def)
next
  fix raw d md raw' ps' v self'
  assume h: "files w p = Some (PdfFile raw d) \<and> metadata d = Some md \<and> dict_has ''/Signature'' md"
  then have ne: "md \<noteq> []" by (auto simp: dict_has_def)
  from h ne show "verify_signature self'
           (w\<lparr>files := (files w)(p \<mapsto>
                PdfFile raw' (d\<lparr>pages := ps', metadata := Some (dict_set ''/Signature'' v md)\<rparr>))\<rparr>) p
         = verify_signature self w p"
    by (simp add: verify_signature_def verify_try_def path_exists_def open_rb_def PdfReader_def
        dict_set_not_Nil dict_has_dict_set dict_get_dict_set map_of_dict_set)
qed

theorem verify_checks_metadata_only_witness:
  "dict_has ''/Signature'' (document_metadata demo_world ''signed.pdf'')
   \<and> map_of (document_metadata demo_world ''signed.pdf'') ''/Producer'' = Some signing_producer
   \<and> verify_signature init
        (demo_world\<lparr>files := (files demo_world)(''signed.pdf'' \<mapsto>
           PdfFile [] (signed_pdf\<lparr>pages := [],
             metadata := Some (dict_set ''/Signature'' ''forged'' (the (metadata signed_pdf)))\<rparr>))\<rparr>)
        ''signed.pdf''
     = verify_signature init demo_world ''signed.pdf''"
proof -
  have h: "files demo_world ''signed.pdf'' = Some (PdfFile [37, 80] signed_pdf)
      \<and> metadata signed_pdf = Some (the (metadata signed_pdf))
      \<and> dict_has ''/Signature'' (the (metadata signed_pdf))"
    by (simp add: demo_world_def demo_files_def signed_pdf_def dict_has_def)
  have m: "document_metadata demo_world ''signed.pdf'' = the (metadata signed_pdf)"
    by (simp add: document_metadata_def open_rb_def demo_world_def demo_files_def signed_pdf_def)
  have p: "map_of (the (metadata signed_pdf)) ''/Producer'' = Some signing_producer"
    by (simp add: signed_pdf_def signing_producer_def)
  note e = verify_checks_metadata_only [of init demo_world "''signed.pdf''",
      THEN conjunct2, rule_format, OF h]
  from h m p e show ?thesis by simp
qed

subsection \<open>Failure reporting\<close>

text \<open>
  C7. Without a private key or without a certificate, \<^verbatim>\<open>sign_pdf\<close> returns False and
  leaves the world as it was: no file is written, the output path included.
\<close>

theorem sign_without_certificate:
  assumes "private_key self = None \<or> certificate self = None"
  shows "sign_pdf L self w pdf_path output_path signature_text position = (Inr False, w)"
  using assms by (auto simp: sign_eq sign_try_def)

theorem sign_without_certificate_witness:
  "sign_pdf demo_libs init demo_world ''in.pdf'' (Some ''out.pdf'') None None = (Inr False, demo_world)
   \<and> files demo_world ''out.pdf'' = None"
proof -
  have "private_key init = None \<or> certificate init = None" by (simp add: init_def)
  from sign_without_certificate [OF this]
  show ?thesis by (simp add: demo_world_def demo_files_def)
qed

text \<open>
  Which calls return. generate, load, save and verify return for every input, and a
  result of verify that is not valid carries an error text. \<^verbatim>\<open>sign_pdf\<close> returns
  unless a certificate and key are loaded, the document does not exist and its path
  holds a lone surrogate; then the message of the handler cannot be printed.
\<close>

lemma operations_return_unless_unprintable:
  "(\<exists>b self' w'. generate_self_signed_certificate self w common_name email organization country
        = (Inr b, self', w'))
   \<and> (\<exists>b self'. load_certificate_from_file self w cert_path key_path password = (Inr b, self'))
   \<and> (\<exists>b w'. save_certificate self w cert_path key_path password = (Inr b, w'))
   \<and> (\<exists>r. verify_signature self w pdf_path = Inr r \<and>
         (map_of r ''is_valid'' = Some (PyBool True) \<or> (\<exists>m. map_of r ''error'' = Some (PyStr m))))
   \<and> ((\<exists>b w'. sign_pdf L self w pdf_path output_path signature_text position = (Inr b, w'))
        \<longleftrightarrow> (private_key self = None \<or> certificate self = None \<or> path_exists w pdf_path
              \<or> valid_utf8 pdf_path))"
proof (intro conjI)
  show "\<exists>b self' w'. generate_self_signed_certificate self w common_name email organization country
        = (Inr b, self', w')"
    unfolding generate_eq
    by (cases "generate_try self w common_name email organization country") (auto split: sum.splits)
  show "\<exists>b self'. load_certificate_from_file self w cert_path key_path password = (Inr b, self')"
    unfolding load_eq
    by (cases "load_try self w cert_path key_path password") (auto split: sum.splits)
  show "\<exists>b w'. save_certificate self w cert_path key_path password = (Inr b, w')"
    unfolding save_eq
    by (cases "save_try self w cert_path key_path password") (auto split: sum.splits)
  show "\<exists>r. verify_signature self w pdf_path = Inr r \<and>
         (map_of r ''is_valid'' = Some (PyBool True) \<or> (\<exists>m. map_of r ''error'' = Some (PyStr m)))"
    unfolding verify_signature_def verify_try_def result0_def
    by (simp split: sum.splits option.splits add: Let_def)
  show "(\<exists>b w'. sign_pdf L self w pdf_path output_path signature_text position = (Inr b, w'))
        \<longleftrightarrow> (private_key self = None \<or> certificate self = None \<or> path_exists w pdf_path
              \<or> valid_utf8 pdf_path)"
  proof
    assume "private_key self = None \<or> certificate self = None \<or> path_exists w pdf_path
              \<or> valid_utf8 pdf_path"
    from sign_eq [OF this]
    show "\<exists>b w'. sign_pdf L self w pdf_path output_path signature_text position = (Inr b, w')"
      by (cases "sign_try L self w pdf_path output_path signature_text position")
        (auto split: sum.splits)
  next
    assume r: "\<exists>b w'. sign_pdf L self w pdf_path output_path signature_text position = (Inr b, w')"
    show "private_key self = None \<or> certificate self = None \<or> path_exists w pdf_path
              \<or> valid_utf8 pdf_path"
    proof (rule ccontr)
      assume n: "\<not> (private_key self = None \<or> certificate self = None \<or> path_exists w pdf_path
              \<or> valid_utf8 pdf_path)"
      have "ascii_text (''Error signing PDF: '' @ ''PDF file not found: '')"
        by (simp add: ascii_text_def)
      from valid_utf8_ascii_append [OF this, of pdf_path] n
      have "\<not> valid_utf8 (''Error signing PDF: '' @ ''PDF file not found: '' @ pdf_path)"
        by simp
      with n have "\<exists>e. sign_pdf L self w pdf_path output_path signature_text position = (Inl e, w)"
        by (simp add: sign_pdf_def sign_try_def print_def)
      with r show False by auto
    qed
  qed
qed

text \<open>
  C8. Each operation is to return a boolean (verify a result dictionary) and never to
  raise. \<^verbatim>\<open>sign_pdf\<close> breaks this: with Bob's pair loaded and a document path that does
  not exist and begins with the byte 0x80 (in Python the lone surrogate U+DC80), the
  handler cannot print its message, and the call ends in UnicodeEncodeError instead of
  returning False.
\<close>

theorem sign_raises_on_unprintable_path:
  "sign_pdf demo_libs bob_signer demo_world surrogate_path None None None =
     (Inl (UnicodeEncodeError ''utf-8 codec cannot encode character: surrogates not allowed''),
      demo_world)"
proof -
  have "\<not> path_exists demo_world surrogate_path"
    by (simp add: path_exists_def demo_world_def demo_files_def surrogate_path_def)
  moreover have "\<not> valid_utf8 (''Error signing PDF: '' @ ''PDF file not found: '' @ surrogate_path)"
    by (simp add: valid_utf8_def surrogate_path_def)
  ultimately show ?thesis
    by (simp add: sign_pdf_def sign_try_def print_def bob_signer_def)
qed

subsection \<open>Loading with a wrong password\<close>

text \<open>
  C3, as the code has it. With a readable certificate file and an encrypted key file
  whose password is not the one given (or none is given), \<^verbatim>\<open>load\<close> returns False; the
  private key and the signer details are what they were, and the certificate field
  holds the certificate just read from the file.
\<close>

theorem load_wrong_password:
  assumes "files w cert_path = Some (CertFile c)" and "\<not> read_denied w cert_path"
    and "files w key_path = Some (KeyFile k (Some p))" and "password \<noteq> Some p"
  shows "load_certificate_from_file self w cert_path key_path password
           = (Inr False, self\<lparr>certificate := Some c\<rparr>)"
  using assms
  by (auto simp: load_eq load_try_def open_rb_def
        load_pem_x509_certificate_def load_pem_private_key_def split: option.splits)

theorem load_wrong_password_witness:
  "load_certificate_from_file init demo_world ''bob.pem'' ''bob.key'' (Some [120])
     = (Inr False, init\<lparr>certificate := Some demo_cert\<rparr>)"
proof -
  have "files demo_world ''bob.pem'' = Some (CertFile demo_cert)"
    and "\<not> read_denied demo_world ''bob.pem''"
    and "files demo_world ''bob.key'' = Some (KeyFile (RSAPrivateKey 7) (Some [115, 51]))"
    and "Some [120] \<noteq> Some [115, 51::nat]"
    by (simp_all add: demo_world_def demo_files_def)
  from load_wrong_password [OF this] show ?thesis .
qed

text \<open>
  The claim as the specification words it fails: from the empty manager, a load with
  the right certificate and a wrong key password returns False and leaves a manager
  that is not the empty one.
\<close>

theorem load_wrong_password_counterexample:
  "fst (load_certificate_from_file init demo_world ''bob.pem'' ''bob.key'' (Some [120])) = Inr False
   \<and> snd (load_certificate_from_file init demo_world ''bob.pem'' ''bob.key'' (Some [120])) \<noteq> init"
  by (simp add: load_eq load_try_def open_rb_def
        load_pem_x509_certificate_def load_pem_private_key_def demo_world_def demo_files_def init_def)

subsection \<open>Signing\<close>

lemma add_all_pages_eq:
  "i + length ps = n \<Longrightarrow>
   add_all_pages i n ps ov out =
     out @ (if ps = [] then [] else butlast ps @ [merge_page (last ps) ov])"
proof (induction ps arbitrary: i out)
  case Nil
  then show ?case by simp
next
  case (Cons p ps)
  have "Suc i + length ps = n" using Cons.prems by simp
  from Cons.IH [OF this] Cons.prems show ?case
    by (cases "ps = []") (auto simp: Let_def)
qed

lemma hash_world:
  "snd (create_document_hash L self w p) = w \<or>
   snd (create_document_hash L self w p) = w\<lparr>draws := Suc (draws w)\<rparr>"
  by (auto simp: hash_eq document_hash_try_def urandom_def
      split: sum.splits option.splits private_key.splits prod.splits)

lemma hash_keeps [simp]:
  "files (snd (create_document_hash L self w p)) = files w"
  "write_denied (snd (create_document_hash L self w p)) = write_denied w"
  "read_denied (snd (create_document_hash L self w p)) = read_denied w"
  using hash_world [of L self w p] by auto

lemma hash_ticks:
  "fst (create_document_hash L self (w\<lparr>ticks := t\<rparr>) p) = fst (create_document_hash L self w p)"
  by (auto simp: hash_eq document_hash_try_def urandom_def open_rb_def
      split: sum.splits option.splits private_key.splits prod.splits)

lemma sign_pdf_True:
  "sign_pdf L self w pdf_path output_path signature_text position = (Inr True, w') \<longleftrightarrow>
   sign_try L self w pdf_path output_path signature_text position = (Inr True, w')"
  by (cases "sign_try L self w pdf_path output_path signature_text position")
     (auto simp: sign_pdf_def split: sum.splits)

lemma sign_pdf_succeeds:
  assumes "private_key self \<noteq> None" and "certificate self \<noteq> None"
    and "files w pdf_path = Some (PdfFile raw d)" and "\<not> read_denied w pdf_path"
    and "\<not> write_denied w (case output_path of None \<Rightarrow> pdf_path | Some q \<Rightarrow> q)"
  shows "\<exists>w'. sign_pdf L self w pdf_path output_path signature_text position = (Inr True, w')"
  using assms unfolding sign_pdf_True
  by (auto simp: sign_try_def Let_def split_def now_def path_exists_def open_rb_def PdfReader_def
      open_wb_write_def split: if_splits sum.splits option.splits disk_file.splits)

lemma sign_pdf_output:
  assumes "sign_pdf L self w pdf_path output_path signature_text position = (Inr True, w')"
    and "files w pdf_path = Some (PdfFile raw d)"
  shows "\<exists>raw' d'.
      files w' (case output_path of None \<Rightarrow> pdf_path | Some q \<Rightarrow> q) = Some (PdfFile raw' d') \<and>
      read_denied w' = read_denied w \<and>
      pages d' = (if pages d = [] then [] else butlast (pages d) @
          [merge_page (last (pages d))
             (create_signature_overlay self
                (case signature_text of
                   None \<Rightarrow> ''Digitally signed by '' @
                             dict_get (signature_info self) ''common_name'' ''Unknown''
                 | Some s \<Rightarrow> s)
                (strftime_dashed (clock w (ticks w))) position)]) \<and>
      metadata d' = Some (dict_update writer_info0
                  [(''/Title'', ''Signed PDF - '' @ stem pdf_path),
                   (''/Author'', dict_get (signature_info self) ''common_name'' ''Unknown''),
                   (''/Subject'', ''Digitally Signed Document''),
                   (''/Creator'', ''Thomson PDF Generator''),
                   (''/Producer'', ''Thomson PDF Generator Digital Signature''),
                   (''/ModDate'', ''D:'' @ strftime_compact (clock w (Suc (ticks w)))),
                   (''/Signature'', b64encode (projr (fst (create_document_hash L self w pdf_path))))])"
  using assms unfolding sign_pdf_True
  by (auto simp: sign_try_def Let_def split_def now_def path_exists_def open_rb_def PdfReader_def
      open_wb_write_def add_all_pages_eq hash_ticks
      split: if_splits sum.splits option.splits disk_file.splits)

lemma signed_metadata_lookup:
  "map_of (dict_update writer_info0
      [(''/Title'', a), (''/Author'', b), (''/Subject'', c), (''/Creator'', d),
       (''/Producer'', e), (''/ModDate'', f), (''/Signature'', g)])
   = map_of [(''/Producer'', e), (''/Title'', a), (''/Author'', b), (''/Subject'', c),
      (''/Creator'', d), (''/ModDate'', f), (''/Signature'', g)]"
  by (simp add: dict_update_def writer_info0_def)

text \<open>
  C6. When \<^verbatim>\<open>sign_pdf\<close> succeeds on a document with at least one page, the file at the
  output path is a document with the same number of pages; all pages but the last are
  the pages of the source, and the last one is the last page of the source with the
  signature overlay merged onto it.
\<close>

theorem sign_keeps_pages:
  assumes "sign_pdf L self w pdf_path output_path signature_text position = (Inr True, w')"
    and "files w pdf_path = Some (PdfFile raw d)" and "pages d \<noteq> []"
  shows "\<exists>raw' d'.
      files w' (case output_path of None \<Rightarrow> pdf_path | Some q \<Rightarrow> q) = Some (PdfFile raw' d') \<and>
      length (pages d') = length (pages d) \<and>
      butlast (pages d') = butlast (pages d) \<and>
      last (pages d') =
        merge_page (last (pages d))
          (create_signature_overlay self
             (case signature_text of
                None \<Rightarrow> ''Digitally signed by '' @
                          dict_get (signature_info self) ''common_name'' ''Unknown''
              | Some s \<Rightarrow> s)
             (strftime_dashed (clock w (ticks w))) position)"
proof -
  from sign_pdf_output [OF assms(1,2)] obtain raw' d' where
    f: "files w' (case output_path of None \<Rightarrow> pdf_path | Some q \<Rightarrow> q) = Some (PdfFile raw' d')"
    and p: "pages d' = (if pages d = [] then [] else butlast (pages d) @
          [merge_page (last (pages d))
             (create_signature_overlay self
                (case signature_text of
                   None \<Rightarrow> ''Digitally signed by '' @
                             dict_get (signature_info self) ''common_name'' ''Unknown''
                 | Some s \<Rightarrow> s)
                (strftime_dashed (clock w (ticks w))) position)])"
    by blast
  note f
  moreover from p assms(3) have "length (pages d') = length (pages d)"
    by (cases "pages d" rule: rev_cases) auto
  moreover from p assms(3) have "butlast (pages d') = butlast (pages d)"
    by (simp add: butlast_append)
  moreover from p assms(3) have "last (pages d') =
        merge_page (last (pages d))
          (create_signature_overlay self
             (case signature_text of
                None \<Rightarrow> ''Digitally signed by '' @
                          dict_get (signature_info self) ''common_name'' ''Unknown''
              | Some s \<Rightarrow> s)
             (strftime_dashed (clock w (ticks w))) position)"
    by simp
  ultimately show ?thesis by blast
qed

theorem sign_keeps_pages_witness:
  "\<exists>w' raw' d'.
      sign_pdf demo_libs bob_signer demo_world ''in.pdf'' (Some ''out.pdf'') None None = (Inr True, w') \<and>
      files w' ''out.pdf'' = Some (PdfFile raw' d') \<and>
      length (pages d') = 3 \<and>
      butlast (pages d') = [\<lparr>content = [1], merged = []\<rparr>, \<lparr>content = [2], merged = []\<rparr>] \<and>
      content (last (pages d')) = [3] \<and> length (merged (last (pages d'))) = 1"
proof -
  have f: "files demo_world ''in.pdf'' = Some (PdfFile [37, 80, 68, 70] demo_pdf)"
    by (simp add: demo_world_def demo_files_def)
  have "\<exists>w'. sign_pdf demo_libs bob_signer demo_world ''in.pdf'' (Some ''out.pdf'') None None
          = (Inr True, w')"
    by (rule sign_pdf_succeeds [OF _ _ f]) (simp_all add: bob_signer_def demo_world_def)
  then obtain w' where
    run: "sign_pdf demo_libs bob_signer demo_world ''in.pdf'' (Some ''out.pdf'') None None = (Inr True, w')"
    by blast
  have ne: "pages demo_pdf \<noteq> []" by (simp add: demo_pdf_def)
  from sign_keeps_pages [OF run f ne] run show ?thesis
    by (auto simp: demo_pdf_def merge_page_def)
qed

text \<open>
  C10. When the signing helper returns empty bytes (its result does not depend on the
  clock), \<^verbatim>\<open>sign_pdf\<close> with a loaded pair, a readable document and a writable and
  readable output path still returns True; the /Signature entry of the output is the
  empty string, and \<^verbatim>\<open>verify_signature\<close> on the output reports is_signed and is_valid
  as true.
\<close>

theorem empty_signature_accepted:
  assumes "private_key self \<noteq> None" and "certificate self \<noteq> None"
    and "files w pdf_path = Some (PdfFile raw d)" and "\<not> read_denied w pdf_path"
    and "out = (case output_path of None \<Rightarrow> pdf_path | Some q \<Rightarrow> q)"
    and "\<not> write_denied w out" and "\<not> read_denied w out"
    and "fst (create_document_hash L self w pdf_path) = Inr []"
  shows "\<exists>w' raw' d' md r.
      sign_pdf L self w pdf_path output_path signature_text position = (Inr True, w') \<and>
      files w' out = Some (PdfFile raw' d') \<and> metadata d' = Some md \<and>
      map_of md ''/Signature'' = Some [] \<and>
      verify_signature self w' out = Inr r \<and>
      map_of r ''is_signed'' = Some (PyBool True) \<and> map_of r ''is_valid'' = Some (PyBool True)"
proof -
  from sign_pdf_succeeds [OF assms(1,2,3,4)] assms(5,6) obtain w' where
    run: "sign_pdf L self w pdf_path output_path signature_text position = (Inr True, w')"
    by blast
  from sign_pdf_output [OF run assms(3)] assms(5,8) obtain raw' d' md where
    f: "files w' out = Some (PdfFile raw' d')" and rd: "read_denied w' = read_denied w"
    and m: "metadata d' = Some md"
    and md: "md = dict_update writer_info0
                  [(''/Title'', ''Signed PDF - '' @ stem pdf_path),
                   (''/Author'', dict_get (signature_info self) ''common_name'' ''Unknown''),
                   (''/Subject'', ''Digitally Signed Document''),
                   (''/Creator'', ''Thomson PDF Generator''),
                   (''/Producer'', ''Thomson PDF Generator Digital Signature''),
                   (''/ModDate'', ''D:'' @ strftime_compact (clock w (Suc (ticks w)))),
                   (''/Signature'', [])]"
    by auto
  have s: "map_of md ''/Signature'' = Some []" and p: "map_of md ''/Producer'' = Some signing_producer"
    unfolding md signed_metadata_lookup by (simp_all add: signing_producer_def)
  have ne: "md \<noteq> []" using s by auto
  have h: "dict_has ''/Signature'' md"
    using s by (auto simp: dict_has_def dest: map_of_SomeD intro: rev_image_eqI)
  have "\<exists>r. verify_signature self w' out = Inr r \<and>
      map_of r ''is_signed'' = Some (PyBool True) \<and> map_of r ''is_valid'' = Some (PyBool True)"
    using f rd m ne h p assms(7)
    by (simp add: verify_signature_def verify_try_def path_exists_def open_rb_def PdfReader_def
        result0_def)
  with run f m s show ?thesis by auto
qed

theorem empty_signature_accepted_witness:
  "fst (create_document_hash demo_libs other_key_signer demo_world ''in.pdf'') = Inr [] \<and>
   (\<exists>w' raw' d' md r.
      sign_pdf demo_libs other_key_signer demo_world ''in.pdf'' (Some ''out.pdf'') None None
        = (Inr True, w') \<and>
      files w' ''out.pdf'' = Some (PdfFile raw' d') \<and> metadata d' = Some md \<and>
      map_of md ''/Signature'' = Some [] \<and>
      verify_signature other_key_signer w' ''out.pdf'' = Inr r \<and>
      map_of r ''is_signed'' = Some (PyBool True) \<and> map_of r ''is_valid'' = Some (PyBool True))"
proof -
  have f: "files demo_world ''in.pdf'' = Some (PdfFile [37, 80, 68, 70] demo_pdf)"
    by (simp add: demo_world_def demo_files_def)
  have k: "private_key other_key_signer \<noteq> None" and c: "certificate other_key_signer \<noteq> None"
    by (simp_all add: other_key_signer_def bob_signer_def)
  have r: "\<not> read_denied demo_world ''in.pdf''" and r': "\<not> read_denied demo_world ''out.pdf''"
    and w: "\<not> write_denied demo_world ''out.pdf''"
    by (simp_all add: demo_world_def)
  have o: "''out.pdf'' = (case Some ''out.pdf'' of None \<Rightarrow> ''in.pdf'' | Some q \<Rightarrow> q)" by simp
  have e: "fst (create_document_hash demo_libs other_key_signer demo_world ''in.pdf'') = Inr []"
    by (simp add: hash_eq document_hash_try_def open_rb_def demo_world_def
        demo_files_def other_key_signer_def)
  from empty_signature_accepted [OF k c f r o w r' e] e show ?thesis by simp
qed

subsection \<open>Generating\<close>

lemma lt10: "k < 10 \<Longrightarrow> k = 0 \<or> k = 1 \<or> k = 2 \<or> k = 3 \<or> k = 4 \<or> k = 5 \<or> k = 6 \<or> k = 7 \<or> k = 8 \<or> k = (9::nat)"
  by arith

lemma digit_value_digit: "k < 10 \<Longrightarrow> digit_value (''0123456789'' ! k) = k"
  by (drule lt10) (elim disjE; simp add: digit_value_def)

lemma digit_value_of_digit: "digit_value (digit m) = m mod 10"
  by (simp add: digit_def digit_value_digit)

lemma read_dec_dec4_expand:
  "read_dec (dec4 n) =
      10 * (10 * (10 * (n div 1000 mod 10) + n div 100 mod 10) + n div 10 mod 10) + n mod 10"
  by (simp add: read_dec_def dec4_def digit_value_of_digit)


lemma read_dec_dec4: "n < 10000 \<Longrightarrow> read_dec (dec4 n) = n"
proof -
  assume n: "n < 10000"
  define q1 where "q1 = n div 10"
  define q2 where "q2 = q1 div 10"
  define q3 where "q3 = q2 div 10"
  have a: "n div 100 = q2" and b: "n div 1000 = q3"
    by (simp_all add: q1_def q2_def q3_def div_mult2_eq)
  have "q3 < 10" using n unfolding b [symmetric] by simp
  then have c: "q3 mod 10 = q3" by simp
  have "read_dec (dec4 n) = 10 * (10 * (10 * (q3 mod 10) + q2 mod 10) + q1 mod 10) + n mod 10"
    unfolding read_dec_dec4_expand a b q1_def [symmetric] ..
  also have "\<dots> = 10 * (10 * (10 * q3 + q2 mod 10) + q1 mod 10) + n mod 10"
    by (simp only: c)
  also have "10 * q3 + q2 mod 10 = q2" unfolding q3_def by simp
  also have "10 * q2 + q1 mod 10 = q1" unfolding q2_def by simp
  also have "10 * q1 + n mod 10 = n" unfolding q1_def by simp
  finally show ?thesis .
qed


lemma strftime_dashed_split:
  "take 4 (strftime_dashed t) = dec4 (year t)"
  "drop 4 (strftime_dashed (t\<lparr>year := y\<rparr>)) = drop 4 (strftime_dashed t)"
  by (simp_all add: strftime_dashed_def dec4_def)

lemma generate_True:
  "generate_self_signed_certificate self w cn em org co = (Inr True, self', w') \<longleftrightarrow>
   generate_try self w cn em org co = (Inr True, self', w')"
  by (cases "generate_try self w cn em org co")
     (auto simp: generate_eq split: sum.splits)

lemma generate_result:
  assumes "generate_self_signed_certificate self w common_name email organization country
             = (Inr True, self', w')"
  shows "\<exists>a_email a_org nva serial k.
     optional_attribute EMAIL_ADDRESS email = Inr a_email \<and>
     optional_attribute ORGANIZATION_NAME organization = Inr a_org \<and>
     replace_year (clock w (Suc (ticks w))) (year (clock w (Suc (Suc (ticks w)))) + 1) = Inr nva \<and>
     private_key self' = Some (RSAPrivateKey k) \<and>
     certificate self' = Some
       \<lparr>subject = [(COMMON_NAME, common_name), (COUNTRY_NAME, country)] @ a_email @ a_org,
        issuer = [(COMMON_NAME, common_name), (COUNTRY_NAME, country)] @ a_email @ a_org,
        cert_public_key = RSAPublicKey k, serial_number = serial,
        not_valid_before_utc = clock w (ticks w), not_valid_after_utc = nva\<rparr> \<and>
     signature_info self' =
       [(''common_name'', common_name),
        (''email'', or_else email ''Not specified''),
        (''organization'', or_else organization ''Not specified''),
        (''country'', country),
        (''created'', strftime_dashed (clock w (Suc (Suc (Suc (ticks w)))))),
        (''valid_until'', strftime_dashed nva)]"
proof -
  from assms have g: "generate_try self w common_name email organization country = (Inr True, self', w')"
    by (simp only: generate_True)
  obtain a_cn where cn: "NameAttribute COMMON_NAME common_name = Inr a_cn"
    using g by (cases "NameAttribute COMMON_NAME common_name")
      (simp_all add: generate_try_def Let_def split_def)
  obtain a_c where c: "NameAttribute COUNTRY_NAME country = Inr a_c"
    using g cn by (cases "NameAttribute COUNTRY_NAME country")
      (simp_all add: generate_try_def Let_def split_def)
  obtain a_email where e: "optional_attribute EMAIL_ADDRESS email = Inr a_email"
    using g cn c by (cases "optional_attribute EMAIL_ADDRESS email")
      (simp_all add: generate_try_def Let_def split_def)
  obtain a_org where or: "optional_attribute ORGANIZATION_NAME organization = Inr a_org"
    using g cn c e by (cases "optional_attribute ORGANIZATION_NAME organization")
      (simp_all add: generate_try_def Let_def split_def)
  obtain nva where r:
    "replace_year (clock w (Suc (ticks w))) (year (clock w (Suc (Suc (ticks w)))) + 1) = Inr nva"
    using g cn c e or
    by (cases "replace_year (clock w (Suc (ticks w))) (year (clock w (Suc (Suc (ticks w)))) + 1)")
      (simp_all add: generate_try_def Let_def split_def now_def urandom_def)
  have a1: "a_cn = (COMMON_NAME, common_name)" and a2: "a_c = (COUNTRY_NAME, country)"
    using cn c by (auto simp: NameAttribute_def split: if_splits)
  from g cn c e or r a1 a2 show ?thesis
    by (simp add: generate_try_def Let_def split_def now_def urandom_def) auto
qed


text \<open>
  C4, as the code has it. After a successful \<^verbatim>\<open>generate\<close>, the signer details hold the
  common name and the country as given; created is the fourth reading of the clock
  and valid_until is the second reading with its year replaced by the year of the
  third reading plus one. When the second and the fourth reading show the same second
  and the third has the year of the second, valid_until is exactly one year after
  created.
\<close>

theorem generate_then_info:
  assumes "generate_self_signed_certificate self w common_name email organization country
             = (Inr True, self', w')"
  shows "map_of (get_certificate_info self') ''common_name'' = Some common_name \<and>
     map_of (get_certificate_info self') ''country'' = Some country \<and>
     map_of (get_certificate_info self') ''created'' =
       Some (strftime_dashed (clock w (ticks w + 3))) \<and>
     map_of (get_certificate_info self') ''valid_until'' =
       Some (strftime_dashed ((clock w (ticks w + 1))\<lparr>year := year (clock w (ticks w + 2)) + 1\<rparr>)) \<and>
     (strftime_dashed (clock w (ticks w + 1)) = strftime_dashed (clock w (ticks w + 3)) \<and>
      year (clock w (ticks w + 2)) = year (clock w (ticks w + 1)) \<longrightarrow>
        exactly_one_year_after
          (dict_get (get_certificate_info self') ''valid_until'' [])
          (dict_get (get_certificate_info self') ''created'' []))"
proof -
  let ?t2 = "clock w (Suc (ticks w))" and ?t3 = "clock w (Suc (Suc (ticks w)))"
    and ?t4 = "clock w (Suc (Suc (Suc (ticks w))))"
  from generate_result [OF assms] obtain nva c where
    r: "replace_year ?t2 (year ?t3 + 1) = Inr nva"
    and c: "certificate self' = Some c"
    and i: "signature_info self' =
       [(''common_name'', common_name),
        (''email'', or_else email ''Not specified''),
        (''organization'', or_else organization ''Not specified''),
        (''country'', country),
        (''created'', strftime_dashed ?t4),
        (''valid_until'', strftime_dashed nva)]"
    by blast
  from r have nva: "nva = ?t2\<lparr>year := year ?t3 + 1\<rparr>" and y: "year ?t3 + 1 < 10000"
    by (auto simp: replace_year_def split: if_splits)
  have info: "get_certificate_info self' = signature_info self'"
    using c by (simp add: get_certificate_info_def)
  have s: "Suc (ticks w) = ticks w + 1" "Suc (Suc (ticks w)) = ticks w + 2"
    "Suc (Suc (Suc (ticks w))) = ticks w + 3" by simp_all
  have "exactly_one_year_after (strftime_dashed nva) (strftime_dashed ?t4)"
    if same: "strftime_dashed ?t2 = strftime_dashed ?t4" and yr: "year ?t3 = year ?t2"
  proof -
    have "take 4 (strftime_dashed nva) = dec4 (year ?t2 + 1)"
      unfolding nva yr by (simp add: strftime_dashed_split(1))
    moreover have "take 4 (strftime_dashed ?t4) = dec4 (year ?t2)"
      unfolding same [symmetric] by (rule strftime_dashed_split(1))
    moreover have "drop 4 (strftime_dashed nva) = drop 4 (strftime_dashed ?t4)"
      unfolding nva same [symmetric] by (rule strftime_dashed_split(2))
    moreover have "read_dec (dec4 (year ?t2 + 1)) = year ?t2 + 1"
      and "read_dec (dec4 (year ?t2)) = year ?t2"
      using y yr by (simp_all add: read_dec_dec4)
    ultimately show ?thesis by (simp add: exactly_one_year_after_def)
  qed
  then show ?thesis
    unfolding info i s [symmetric] nva [symmetric]
    by (simp add: dict_get_def)
qed

theorem generate_then_info_witness:
  "\<exists>self' w'.
     generate_self_signed_certificate init demo_world ''Alice'' (Some ''a@x.com'') None ''US''
       = (Inr True, self', w') \<and>
     map_of (get_certificate_info self') ''common_name'' = Some ''Alice'' \<and>
     map_of (get_certificate_info self') ''country'' = Some ''US'' \<and>
     map_of (get_certificate_info self') ''created'' = Some ''2025-03-01 10:00:00'' \<and>
     map_of (get_certificate_info self') ''valid_until'' = Some ''2026-03-01 10:00:00'' \<and>
     exactly_one_year_after
       (dict_get (get_certificate_info self') ''valid_until'' [])
       (dict_get (get_certificate_info self') ''created'' [])"
proof -
  have "fst (generate_self_signed_certificate init demo_world ''Alice'' (Some ''a@x.com'') None ''US'')
          = Inr True"
    by (simp add: generate_eq generate_try_def Let_def split_def now_def
        urandom_def NameAttribute_def optional_attribute_def replace_year_def demo_world_def
        base_time_def)
  then obtain self' w' where run:
    "generate_self_signed_certificate init demo_world ''Alice'' (Some ''a@x.com'') None ''US''
       = (Inr True, self', w')"
    by (cases "generate_self_signed_certificate init demo_world ''Alice'' (Some ''a@x.com'') None ''US''")
      auto
  have t: "strftime_dashed (clock demo_world (ticks demo_world + 1))
             = strftime_dashed (clock demo_world (ticks demo_world + 3)) \<and>
           year (clock demo_world (ticks demo_world + 2)) = year (clock demo_world (ticks demo_world + 1))"
    by (simp add: demo_world_def strftime_dashed_def)
  have v: "strftime_dashed (clock demo_world (ticks demo_world + 3)) = ''2025-03-01 10:00:00''"
    "strftime_dashed ((clock demo_world (ticks demo_world + 1))
        \<lparr>year := year (clock demo_world (ticks demo_world + 2)) + 1\<rparr>) = ''2026-03-01 10:00:00''"
    by (simp_all add: demo_world_def base_time_def strftime_dashed_def dec4_def dec2_def digit_def)
  from generate_then_info [OF run] t v run show ?thesis by simp
qed

text \<open>
  The claim as the specification words it fails when a second begins between the
  readings of the clock: the certificate expires at 10:00:00 a year later, and created
  reads 10:00:01.
\<close>

theorem generate_validity_counterexample:
  "fst (generate_self_signed_certificate init boundary_world ''Alice'' None None ''US'') = Inr True \<and>
   dict_get (get_certificate_info
       (fst (snd (generate_self_signed_certificate init boundary_world ''Alice'' None None ''US''))))
     ''created'' [] = ''2025-03-01 10:00:01'' \<and>
   dict_get (get_certificate_info
       (fst (snd (generate_self_signed_certificate init boundary_world ''Alice'' None None ''US''))))
     ''valid_until'' [] = ''2026-03-01 10:00:00'' \<and>
   \<not> exactly_one_year_after ''2026-03-01 10:00:00'' ''2025-03-01 10:00:01''"
  by (simp add: generate_eq generate_try_def Let_def split_def now_def
      urandom_def NameAttribute_def optional_attribute_def replace_year_def boundary_world_def
      demo_world_def base_time_def get_certificate_info_def dict_get_def strftime_dashed_def
      dec4_def dec2_def digit_def exactly_one_year_after_def)

subsection \<open>Saving and loading\<close>

lemma bob_signer_loaded:
  "load_certificate_from_file init demo_world ''bob.pem'' ''bob.key'' (Some [115, 51])
     = (Inr True, bob_signer)"
  by (simp add: load_eq load_try_def open_rb_def
        load_pem_x509_certificate_def load_pem_private_key_def demo_world_def demo_files_def init_def
        bob_signer_def demo_cert_def base_time_def strftime_dashed_def dec2_def dec4_def digit_def)

lemma load_True:
  "load_certificate_from_file self w cp kp pw = (Inr True, self') \<longleftrightarrow>
   load_try self w cp kp pw = (Inr True, self')"
  by (cases "load_try self w cp kp pw")
     (auto simp: load_eq split: sum.splits)

lemma load_result:
  assumes "load_certificate_from_file self w cp kp pw = (Inr True, self')"
  shows "\<exists>c k. files w cp = Some (CertFile c) \<and> private_key self' = Some k \<and>
     certificate self' = Some c \<and>
     signature_info self' =
       [(''common_name'', get_name_attribute (subject c) COMMON_NAME),
        (''email'', get_name_attribute (subject c) EMAIL_ADDRESS),
        (''organization'', get_name_attribute (subject c) ORGANIZATION_NAME),
        (''country'', get_name_attribute (subject c) COUNTRY_NAME),
        (''valid_from'', strftime_dashed (not_valid_before_utc c)),
        (''valid_until'', strftime_dashed (not_valid_after_utc c))]"
  using assms unfolding load_True
  by (auto simp: load_try_def Let_def open_rb_def load_pem_x509_certificate_def
      split: sum.splits option.splits if_splits disk_file.splits)

lemma optional_attribute_lookup:
  assumes "optional_attribute a x = Inr attrs"
  shows "get_name_attribute (attrs @ rest) a = (if truthy x then the x else get_name_attribute rest a)"
    and "b \<noteq> a \<Longrightarrow> get_name_attribute (attrs @ rest) b = get_name_attribute rest b"
  using assms
  by (auto simp: optional_attribute_def NameAttribute_def split: if_splits sum.splits)

lemma or_else_truthy: "or_else x d = (if truthy x then the x else d)"
  by (cases x) (auto simp: or_else_def)

text \<open>
  After a successful generate or load, the four identity entries of the signer details
  are the attributes of the subject of the certificate held.
\<close>

lemma details_from_subject:
  assumes "(\<exists>s0 w0 cn em org co w1.
              generate_self_signed_certificate s0 w0 cn em org co = (Inr True, self, w1))
         \<or> (\<exists>s0 w0 cp kp pw. load_certificate_from_file s0 w0 cp kp pw = (Inr True, self))"
  shows "\<exists>c k. certificate self = Some c \<and> private_key self = Some k \<and>
     map_of (signature_info self) ''common_name'' = Some (get_name_attribute (subject c) COMMON_NAME) \<and>
     map_of (signature_info self) ''email'' = Some (get_name_attribute (subject c) EMAIL_ADDRESS) \<and>
     map_of (signature_info self) ''organization'' =
       Some (get_name_attribute (subject c) ORGANIZATION_NAME) \<and>
     map_of (signature_info self) ''country'' = Some (get_name_attribute (subject c) COUNTRY_NAME)"
  using assms
proof (elim disjE exE)
  fix s0 w0 cn em org co w1
  assume "generate_self_signed_certificate s0 w0 cn em org co = (Inr True, self, w1)"
  from generate_result [OF this] obtain a_email a_org c k where
    e: "optional_attribute EMAIL_ADDRESS em = Inr a_email"
    and or: "optional_attribute ORGANIZATION_NAME org = Inr a_org"
    and k: "private_key self = Some k"
    and c: "certificate self = Some c"
    and s: "subject c = [(COMMON_NAME, cn), (COUNTRY_NAME, co)] @ a_email @ a_org"
    and i: "map_of (signature_info self) ''common_name'' = Some cn"
      "map_of (signature_info self) ''email'' = Some (or_else em ''Not specified'')"
      "map_of (signature_info self) ''organization'' = Some (or_else org ''Not specified'')"
      "map_of (signature_info self) ''country'' = Some co"
    by fastforce
  have "get_name_attribute (subject c) COMMON_NAME = cn"
    and "get_name_attribute (subject c) COUNTRY_NAME = co"
    and "get_name_attribute (subject c) EMAIL_ADDRESS = or_else em ''Not specified''"
    and "get_name_attribute (subject c) ORGANIZATION_NAME = or_else org ''Not specified''"
    using optional_attribute_lookup [OF e] optional_attribute_lookup [OF or, where rest = "[]"]
    by (simp_all add: s or_else_truthy)
  with c k i show ?thesis by simp
next
  fix s0 w0 cp kp pw
  assume "load_certificate_from_file s0 w0 cp kp pw = (Inr True, self)"
  from load_result [OF this] show ?thesis by auto
qed

lemma save_True:
  "save_certificate self w cp kp pw = (Inr True, w') \<longleftrightarrow> save_try self w cp kp pw = (Inr True, w')"
  by (cases "save_try self w cp kp pw")
     (auto simp: save_eq split: sum.splits)

lemma save_result:
  assumes "save_certificate self w cp kp pw = (Inr True, w')" and "cp \<noteq> kp"
  shows "\<exists>c k. certificate self = Some c \<and> private_key self = Some k \<and>
     files w' cp = Some (CertFile c) \<and>
     files w' kp = Some (KeyFile k (if truthy pw then pw else None)) \<and>
     read_denied w' = read_denied w"
  using assms unfolding save_True
  by (auto simp: save_try_def Let_def open_wb_write_def split: option.splits if_splits)

text \<open>
  C5, as the code has it. Take a manager as a successful generate or load leaves it,
  save it to two different paths that can be read back, and load those files with the
  same password (none, or a non-empty one): the load succeeds and the common name,
  email, organization and country of the signer details are the ones held before the
  save.
\<close>

theorem save_load_round_trip:
  assumes "(\<exists>s0 w0 cn em org co w1.
              generate_self_signed_certificate s0 w0 cn em org co = (Inr True, self, w1))
         \<or> (\<exists>s0 w0 cp kp pw. load_certificate_from_file s0 w0 cp kp pw = (Inr True, self))"
    and "save_certificate self w cert_path key_path password = (Inr True, w')"
    and "cert_path \<noteq> key_path" and "password \<noteq> Some []"
    and "\<not> read_denied w cert_path" and "\<not> read_denied w key_path"
  shows "\<exists>self''.
     load_certificate_from_file self0 w' cert_path key_path password = (Inr True, self'') \<and>
     map_of (get_certificate_info self'') ''common_name'' = map_of (get_certificate_info self) ''common_name'' \<and>
     map_of (get_certificate_info self'') ''email'' = map_of (get_certificate_info self) ''email'' \<and>
     map_of (get_certificate_info self'') ''organization'' = map_of (get_certificate_info self) ''organization'' \<and>
     map_of (get_certificate_info self'') ''country'' = map_of (get_certificate_info self) ''country''"
proof -
  from details_from_subject [OF assms(1)] obtain c k where
    c: "certificate self = Some c" and k: "private_key self = Some k"
    and i: "map_of (signature_info self) ''common_name'' = Some (get_name_attribute (subject c) COMMON_NAME)"
      "map_of (signature_info self) ''email'' = Some (get_name_attribute (subject c) EMAIL_ADDRESS)"
      "map_of (signature_info self) ''organization'' = Some (get_name_attribute (subject c) ORGANIZATION_NAME)"
      "map_of (signature_info self) ''country'' = Some (get_name_attribute (subject c) COUNTRY_NAME)"
    by blast
  from save_result [OF assms(2,3)] c k have
    f: "files w' cert_path = Some (CertFile c)"
      "files w' key_path = Some (KeyFile k (if truthy password then password else None))"
    and rd: "read_denied w' = read_denied w"
    by auto
  have key: "load_pem_private_key (KeyFile k (if truthy password then password else None)) password
      = Inr k"
    using assms(4) by (cases password) (auto simp: load_pem_private_key_def)
  have l: "load_try self0 w' cert_path key_path password =
      (Inr True, self0\<lparr>certificate := Some c, private_key := Some k,
         signature_info :=
           [(''common_name'', get_name_attribute (subject c) COMMON_NAME),
            (''email'', get_name_attribute (subject c) EMAIL_ADDRESS),
            (''organization'', get_name_attribute (subject c) ORGANIZATION_NAME),
            (''country'', get_name_attribute (subject c) COUNTRY_NAME),
            (''valid_from'', strftime_dashed (not_valid_before_utc c)),
            (''valid_until'', strftime_dashed (not_valid_after_utc c))]\<rparr>)"
    using f rd assms(5,6) key
    by (simp add: load_try_def Let_def open_rb_def load_pem_x509_certificate_def)
  show ?thesis
    unfolding load_True l using c i by (simp add: get_certificate_info_def)
qed

theorem save_load_round_trip_witness:
  "\<exists>w' self''.
     save_certificate bob_signer demo_world ''c.pem'' ''k.pem'' (Some [1, 2]) = (Inr True, w') \<and>
     load_certificate_from_file init w' ''c.pem'' ''k.pem'' (Some [1, 2]) = (Inr True, self'') \<and>
     map_of (get_certificate_info self'') ''common_name'' = Some ''Bob'' \<and>
     map_of (get_certificate_info self'') ''email'' = Some ''Not specified'' \<and>
     map_of (get_certificate_info self'') ''organization'' = Some ''Not specified'' \<and>
     map_of (get_certificate_info self'') ''country'' = Some ''DE''"
proof -
  have o: "(\<exists>s0 w0 cn em org co w1.
              generate_self_signed_certificate s0 w0 cn em org co = (Inr True, bob_signer, w1))
         \<or> (\<exists>s0 w0 cp kp pw. load_certificate_from_file s0 w0 cp kp pw = (Inr True, bob_signer))"
    using bob_signer_loaded by blast
  have "fst (save_certificate bob_signer demo_world ''c.pem'' ''k.pem'' (Some [1, 2])) = Inr True"
    by (simp add: save_eq save_try_def open_wb_write_def bob_signer_def demo_world_def)
  then obtain w' where
    s: "save_certificate bob_signer demo_world ''c.pem'' ''k.pem'' (Some [1, 2]) = (Inr True, w')"
    by (cases "save_certificate bob_signer demo_world ''c.pem'' ''k.pem'' (Some [1, 2])") auto
  have d: "''c.pem'' \<noteq> ''k.pem''" and p: "Some [1, 2::nat] \<noteq> Some []"
    and r: "\<not> read_denied demo_world ''c.pem''" "\<not> read_denied demo_world ''k.pem''"
    by (simp_all add: demo_world_def)
  from save_load_round_trip [OF o s d p r, of init] s show ?thesis
    by (auto simp: get_certificate_info_def bob_signer_def)
qed

text \<open>
  The claim as the specification words it fails for a manager that holds a certificate
  and a key but details of another certificate, as a failed load leaves it: the
  details say Bob, and the files saved from it load as Carol.
\<close>

theorem save_load_counterexample:
  "is_certificate_loaded mixed_signer \<and>
   map_of (get_certificate_info mixed_signer) ''common_name'' = Some ''Bob'' \<and>
   fst (save_certificate mixed_signer demo_world ''c.pem'' ''k.pem'' None) = Inr True \<and>
   fst (load_certificate_from_file init
          (snd (save_certificate mixed_signer demo_world ''c.pem'' ''k.pem'' None))
          ''c.pem'' ''k.pem'' None) = Inr True \<and>
   map_of (get_certificate_info (snd (load_certificate_from_file init
          (snd (save_certificate mixed_signer demo_world ''c.pem'' ''k.pem'' None))
          ''c.pem'' ''k.pem'' None))) ''common_name'' = Some ''Carol''"
proof -
  have m: "mixed_signer = bob_signer\<lparr>certificate := Some carol_cert\<rparr>"
    by (simp add: mixed_signer_def load_eq load_try_def open_rb_def
        load_pem_x509_certificate_def load_pem_private_key_def demo_world_def demo_files_def)
  show ?thesis
    unfolding m
    by (simp add: is_certificate_loaded_def get_certificate_info_def bob_signer_def
        save_eq save_try_def open_wb_write_def load_eq
        load_try_def open_rb_def load_pem_x509_certificate_def load_pem_private_key_def
        demo_world_def carol_cert_def)
qed

subsection \<open>Signing twice\<close>

lemma sign_pdf_readable:
  assumes "sign_pdf L self w pdf_path output_path signature_text position = (Inr True, w')"
  shows "\<not> read_denied w pdf_path"
  using assms unfolding sign_pdf_True
  by (auto simp: sign_try_def Let_def split_def now_def path_exists_def open_rb_def
      split: if_splits sum.splits option.splits)

lemma document_hash_value:
  assumes "files w p = Some (PdfFile raw d)" and "\<not> read_denied w p"
  shows "fst (create_document_hash L self w p) =
     Inr (case private_key self of
            Some (RSAPrivateKey k) \<Rightarrow> pss_sign L k raw (entropy w (draws w))
          | _ \<Rightarrow> [])"
  using assms
  by (auto simp: hash_eq document_hash_try_def open_rb_def urandom_def
      split: option.splits private_key.splits)

text \<open>
  C2, as the code has it. Two successful runs of \<^verbatim>\<open>sign_pdf\<close> with the same manager on
  the same document write the same /Producer and the same /Creator. The /Signature
  written by a run is the base64 text of the signature of the raw bytes under the key
  with the salt drawn in that run (the empty text when the key is not an RSA key), so
  the two runs write the same /Signature when they draw the same salt.
\<close>

theorem sign_twice_metadata:
  assumes "sign_pdf L self w1 pdf_path out1 text1 pos1 = (Inr True, w1')"
    and "sign_pdf L self w2 pdf_path out2 text2 pos2 = (Inr True, w2')"
    and "files w1 pdf_path = Some (PdfFile raw d)" and "files w2 pdf_path = Some (PdfFile raw d)"
  shows "\<exists>raw1 d1 md1 raw2 d2 md2.
     files w1' (case out1 of None \<Rightarrow> pdf_path | Some q \<Rightarrow> q) = Some (PdfFile raw1 d1) \<and>
     metadata d1 = Some md1 \<and>
     files w2' (case out2 of None \<Rightarrow> pdf_path | Some q \<Rightarrow> q) = Some (PdfFile raw2 d2) \<and>
     metadata d2 = Some md2 \<and>
     map_of md1 ''/Producer'' = Some signing_producer \<and>
     map_of md2 ''/Producer'' = Some signing_producer \<and>
     map_of md1 ''/Creator'' = Some ''Thomson PDF Generator'' \<and>
     map_of md2 ''/Creator'' = Some ''Thomson PDF Generator'' \<and>
     map_of md1 ''/Signature'' =
       Some (b64encode (case private_key self of
                          Some (RSAPrivateKey k) \<Rightarrow> pss_sign L k raw (entropy w1 (draws w1))
                        | _ \<Rightarrow> [])) \<and>
     map_of md2 ''/Signature'' =
       Some (b64encode (case private_key self of
                          Some (RSAPrivateKey k) \<Rightarrow> pss_sign L k raw (entropy w2 (draws w2))
                        | _ \<Rightarrow> [])) \<and>
     (entropy w1 (draws w1) = entropy w2 (draws w2) \<longrightarrow>
        map_of md1 ''/Signature'' = map_of md2 ''/Signature'')"
proof -
  note h1 = document_hash_value [OF assms(3) sign_pdf_readable [OF assms(1)], of L self]
  note h2 = document_hash_value [OF assms(4) sign_pdf_readable [OF assms(2)], of L self]
  from sign_pdf_output [OF assms(1,3)] obtain raw1 d1 md1 where
    f1: "files w1' (case out1 of None \<Rightarrow> pdf_path | Some q \<Rightarrow> q) = Some (PdfFile raw1 d1)"
    and m1: "metadata d1 = Some md1"
    and l1: "map_of md1 ''/Producer'' = Some signing_producer"
      "map_of md1 ''/Creator'' = Some ''Thomson PDF Generator''"
      "map_of md1 ''/Signature'' = Some (b64encode (projr (fst (create_document_hash L self w1 pdf_path))))"
    by (auto simp: signed_metadata_lookup signing_producer_def)
  from sign_pdf_output [OF assms(2,4)] obtain raw2 d2 md2 where
    f2: "files w2' (case out2 of None \<Rightarrow> pdf_path | Some q \<Rightarrow> q) = Some (PdfFile raw2 d2)"
    and m2: "metadata d2 = Some md2"
    and l2: "map_of md2 ''/Producer'' = Some signing_producer"
      "map_of md2 ''/Creator'' = Some ''Thomson PDF Generator''"
      "map_of md2 ''/Signature'' = Some (b64encode (projr (fst (create_document_hash L self w2 pdf_path))))"
    by (auto simp: signed_metadata_lookup signing_producer_def)
  from f1 m1 l1 f2 m2 l2 show ?thesis
    unfolding h1 h2
    by (rule_tac x = raw1 in exI, rule_tac x = d1 in exI, rule_tac x = md1 in exI,
        rule_tac x = raw2 in exI, rule_tac x = d2 in exI, rule_tac x = md2 in exI)
      (simp split: option.splits private_key.splits)
qed


theorem sign_twice_metadata_witness:
  "\<exists>w1' w2' raw1 d1 md1 raw2 d2 md2.
     sign_pdf demo_libs bob_signer demo_world ''in.pdf'' (Some ''a.pdf'') None None = (Inr True, w1') \<and>
     sign_pdf demo_libs bob_signer (demo_world\<lparr>ticks := 5\<rparr>) ''in.pdf'' (Some ''b.pdf'') None None
       = (Inr True, w2') \<and>
     files w1' ''a.pdf'' = Some (PdfFile raw1 d1) \<and> metadata d1 = Some md1 \<and>
     files w2' ''b.pdf'' = Some (PdfFile raw2 d2) \<and> metadata d2 = Some md2 \<and>
     map_of md1 ''/Producer'' = map_of md2 ''/Producer'' \<and>
     map_of md1 ''/Creator'' = map_of md2 ''/Creator'' \<and>
     map_of md1 ''/Signature'' = Some ''BwslUERG'' \<and>
     map_of md2 ''/Signature'' = Some ''BwslUERG''"
proof -
  have f: "files demo_world ''in.pdf'' = Some (PdfFile [37, 80, 68, 70] demo_pdf)"
    and f': "files (demo_world\<lparr>ticks := 5\<rparr>) ''in.pdf'' = Some (PdfFile [37, 80, 68, 70] demo_pdf)"
    by (simp_all add: demo_world_def demo_files_def)
  have "\<exists>w'. sign_pdf demo_libs bob_signer demo_world ''in.pdf'' (Some ''a.pdf'') None None
          = (Inr True, w')"
    by (rule sign_pdf_succeeds [OF _ _ f]) (simp_all add: bob_signer_def demo_world_def)
  then obtain w1' where
    r1: "sign_pdf demo_libs bob_signer demo_world ''in.pdf'' (Some ''a.pdf'') None None = (Inr True, w1')"
    by blast
  have "\<exists>w'. sign_pdf demo_libs bob_signer (demo_world\<lparr>ticks := 5\<rparr>) ''in.pdf'' (Some ''b.pdf'')
          None None = (Inr True, w')"
    by (rule sign_pdf_succeeds [OF _ _ f']) (simp_all add: bob_signer_def demo_world_def)
  then obtain w2' where
    r2: "sign_pdf demo_libs bob_signer (demo_world\<lparr>ticks := 5\<rparr>) ''in.pdf'' (Some ''b.pdf'')
          None None = (Inr True, w2')"
    by blast
  have s: "b64encode (case private_key bob_signer of
                          Some (RSAPrivateKey k) \<Rightarrow>
                            pss_sign demo_libs k [37, 80, 68, 70] (entropy demo_world (draws demo_world))
                        | _ \<Rightarrow> []) = ''BwslUERG''"
    by (simp add: bob_signer_def demo_libs_def demo_world_def b64_alphabet_def)
  have e: "entropy (demo_world\<lparr>ticks := 5\<rparr>) (draws (demo_world\<lparr>ticks := 5\<rparr>))
      = entropy demo_world (draws demo_world)"
    by simp
  from sign_twice_metadata [OF r1 r2 f f', unfolded e s] obtain raw1 d1 md1 raw2 d2 md2 where
    "files w1' ''a.pdf'' = Some (PdfFile raw1 d1)" "metadata d1 = Some md1"
    "files w2' ''b.pdf'' = Some (PdfFile raw2 d2)" "metadata d2 = Some md2"
    "map_of md1 ''/Producer'' = map_of md2 ''/Producer''"
    "map_of md1 ''/Creator'' = map_of md2 ''/Creator''"
    "map_of md1 ''/Signature'' = Some ''BwslUERG''"
    "map_of md2 ''/Signature'' = Some ''BwslUERG''"
    by auto
  with r1 r2 show ?thesis by blast
qed

text \<open>
  The claim as the specification words it fails: signing the same unchanged document
  twice, one run after the other, embeds two different signatures, since each run
  draws its own salt.
\<close>

theorem sign_twice_counterexample:
  "fst (sign_pdf demo_libs bob_signer demo_world ''in.pdf'' (Some ''out1.pdf'') None None) = Inr True \<and>
   fst (sign_pdf demo_libs bob_signer signed_once ''in.pdf'' (Some ''out2.pdf'') None None) = Inr True \<and>
   files signed_once ''in.pdf'' = files demo_world ''in.pdf'' \<and>
   map_of (document_metadata signed_twice ''out1.pdf'') ''/Signature'' = Some ''BwslUERG'' \<and>
   map_of (document_metadata signed_twice ''out2.pdf'') ''/Signature'' = Some ''BwwlUERG''"
proof -
  have k: "private_key bob_signer = Some (RSAPrivateKey 7)" "certificate bob_signer = Some demo_cert"
    by (simp_all add: bob_signer_def)
  have d: "files demo_world ''in.pdf'' = Some (PdfFile [37, 80, 68, 70] demo_pdf)"
    "read_denied demo_world = (\<lambda>p. False)" "write_denied demo_world = (\<lambda>p. False)"
    "entropy demo_world = (\<lambda>n. n + 11)" "draws demo_world = 0"
    by (simp_all add: demo_world_def demo_files_def)
  have b: "b64encode (pss_sign demo_libs 7 [37, 80, 68, 70] 11) = ''BwslUERG''"
    "b64encode (pss_sign demo_libs 7 [37, 80, 68, 70] 12) = ''BwwlUERG''"
    by (simp_all add: demo_libs_def b64_alphabet_def)
  show ?thesis
    unfolding signed_twice_def signed_once_def
    by (simp add: sign_pdf_def sign_try_def Let_def split_def now_def path_exists_def open_rb_def
        PdfReader_def open_wb_write_def hash_eq document_hash_try_def urandom_def
        document_metadata_def k d b dict_update_def writer_info0_def)
qed

end
